theory Spec2Isabelle
  imports Main "HOL-Library.Word"
begin

section \<open>Room (src/user/room.ts): a shallow embedding\<close>

text \<open>
  The class \<open>Room\<close> is a facade over an abstract messaging provider (the puppet). The
  provider is not part of the file: it is a parameter of the model, a record of
  functions over a provider state \<open>'p\<close>. Every method of \<open>Room\<close> becomes a function
  that takes the world (provider state, trace of provider calls, the static pool, the
  allocation counter, the log and the captured exceptions) and returns a result together
  with the new world. A thrown exception or a rejected promise is \<open>Inl\<close>.
\<close>

subsection \<open>Values\<close>

text \<open>A JavaScript string is a sequence of UTF-16 code units.\<close>

type_synonym jstr = "16 word list"

definition js :: "string \<Rightarrow> jstr" where
  "js s = map of_char s"

text \<open>
  What can be thrown or rejected with. \<open>Error msg\<close> is \<open>new Error(msg)\<close> of the source;
  \<open>TypeError\<close> is what the runtime throws on a property access or call on \<open>undefined\<close>
  or \<open>null\<close>; \<open>ProviderError\<close> stands for an error object the provider rejects with;
  \<open>ThrownUndefined\<close> and \<open>ThrownNull\<close> are a rejection with the value \<open>undefined\<close> or
  \<open>null\<close> (\<open>Promise.reject()\<close>), which is no object at all.
\<close>

datatype error = Error string | TypeError string | ProviderError string | ThrownUndefined | ThrownNull

text \<open>
  Reading \<open>e.message\<close> of a caught value \<open>e\<close>: a \<open>TypeError\<close> when \<open>e\<close> is \<open>undefined\<close> or
  \<open>null\<close>, and no throw for any other value.
\<close>

definition read_message :: "error \<Rightarrow> error option" where
  "read_message e =
     (case e of
        ThrownUndefined \<Rightarrow> Some (TypeError ''Cannot read property message of undefined'')
      | ThrownNull \<Rightarrow> Some (TypeError ''Cannot read property message of null'')
      | _ \<Rightarrow> None)"

datatype level = Silly | Verbose | Info | Warn | Err

text \<open>An instance of \<open>Room\<close>: its address and its only own field, \<open>public readonly id\<close>.\<close>

record room =
  ref :: nat
  rid :: jstr

text \<open>
  Modelled from the spec: the sibling Member entity (\<open>Contact\<close>, contact.ts) is not in
  the source. Its registry gives one instance per id, so a member entity is represented
  by its id.
\<close>

datatype contact = Contact (cid: jstr)

text \<open>\<open>RoomPayload\<close> of the provider: the attributes this file reads.\<close>

record room_payload =
  p_topic :: "jstr option"
  p_memberIdList :: "jstr list"
  p_ownerId :: "jstr option"

text \<open>\<open>RoomQueryFilter\<close>: \<open>{ topic: string | RegExp }\<close>, the field possibly missing.\<close>

datatype topic_matcher = TopicString jstr | TopicRegExp jstr

record query =
  q_topic :: "topic_matcher option"

text \<open>The receiver object handed to the provider's send operations.\<close>

record receiver =
  roomId :: "jstr option"
  contactId :: "jstr option"

subsection \<open>The provider\<close>

text \<open>The provider operations as they are called in room.ts, recorded in call order.\<close>

datatype pcall =
    RoomCreate "jstr list" "jstr option"
  | RoomSearch query
  | RoomPayloadDirty jstr
  | RoomPayload jstr
  | RoomMemberList jstr
  | RoomTopic jstr jstr
  | RoomAnnounceGet jstr
  | RoomAnnounceSet jstr jstr
  | MessageSendText receiver jstr
  | MessageSendFile receiver nat
  | MessageSendContact receiver jstr
  | ContactReady jstr

text \<open>
  The asynchronous operations return a result or a rejection and a new provider state;
  \<open>roomPayloadCache\<close> and \<open>selfId\<close> are called synchronously and are reads of the
  provider state. \<open>contactReady\<close> and \<open>contactName\<close> stand for \<open>Contact.ready()\<close> and
  \<open>Contact.name()\<close> of the sibling entity, both provider-backed.
\<close>

record 'p puppet =
  roomCreate :: "jstr list \<Rightarrow> jstr option \<Rightarrow> 'p \<Rightarrow> (error + jstr) \<times> 'p"
  roomSearch :: "query \<Rightarrow> 'p \<Rightarrow> (error + jstr list) \<times> 'p"
  roomPayloadCache :: "'p \<Rightarrow> jstr \<Rightarrow> room_payload option"
  roomPayloadDirty :: "jstr \<Rightarrow> 'p \<Rightarrow> (error + unit) \<times> 'p"
  roomPayload :: "jstr \<Rightarrow> 'p \<Rightarrow> (error + room_payload) \<times> 'p"
  roomMemberList :: "jstr \<Rightarrow> 'p \<Rightarrow> (error + jstr list) \<times> 'p"
  roomTopic :: "jstr \<Rightarrow> jstr \<Rightarrow> 'p \<Rightarrow> (error + unit) \<times> 'p"
  roomAnnounceGet :: "jstr \<Rightarrow> 'p \<Rightarrow> (error + jstr) \<times> 'p"
  roomAnnounceSet :: "jstr \<Rightarrow> jstr \<Rightarrow> 'p \<Rightarrow> (error + unit) \<times> 'p"
  messageSendText :: "receiver \<Rightarrow> jstr \<Rightarrow> 'p \<Rightarrow> (error + unit) \<times> 'p"
  messageSendFile :: "receiver \<Rightarrow> nat \<Rightarrow> 'p \<Rightarrow> (error + unit) \<times> 'p"
  messageSendContact :: "receiver \<Rightarrow> jstr \<Rightarrow> 'p \<Rightarrow> (error + unit) \<times> 'p"
  selfId :: "'p \<Rightarrow> jstr"
  contactReady :: "jstr \<Rightarrow> 'p \<Rightarrow> (error + unit) \<times> 'p"
  contactName :: "'p \<Rightarrow> jstr \<Rightarrow> jstr"

subsection \<open>The world\<close>

text \<open>
  \<open>pool\<close> is the static \<open>Room.pool\<close>: \<open>None\<close> while the property is undefined, else the
  entries of the \<open>Map\<close> in insertion order. \<open>next_ref\<close> is the next free address.
  \<open>logs\<close> keeps, for each line logged, its level, its module and its format string;
  \<open>raven\<close> keeps what was handed to \<open>Raven.captureException\<close>.
\<close>

record 'p world =
  pstate :: 'p
  calls :: "pcall list"
  pool :: "(jstr \<times> room) list option"
  next_ref :: nat
  logs :: "(level \<times> string \<times> string) list"
  raven :: "error list"

text \<open>
  The class on which a static method runs (\<open>this\<close> in \<open>load\<close>, \<open>create\<close>, \<open>findAll\<close>):
  whether it is \<open>Room\<close> itself or a subclass, and the provider it is bound to, if any.
\<close>

record 'p room_class =
  is_base :: bool
  puppet :: "'p puppet option"

definition init_world :: "'p \<Rightarrow> 'p world" where
  "init_world s = \<lparr>pstate = s, calls = [], pool = None, next_ref = 0, logs = [], raven = []\<rparr>"

definition log :: "level \<Rightarrow> string \<Rightarrow> string \<Rightarrow> 'p world \<Rightarrow> 'p world" where
  "log lv tag fmt w = w\<lparr>logs := logs w @ [(lv, tag, fmt)]\<rparr>"

definition captureException :: "error \<Rightarrow> 'p world \<Rightarrow> 'p world" where
  "captureException e w = w\<lparr>raven := raven w @ [e]\<rparr>"

text \<open>\<open>await this.puppet.op(...)\<close>: the call is recorded and the provider state advances.\<close>

definition invoke :: "pcall \<Rightarrow> ('p \<Rightarrow> (error + 'a) \<times> 'p) \<Rightarrow> 'p world \<Rightarrow> (error + 'a) \<times> 'p world" where
  "invoke c f w = (case f (pstate w) of (r, s) \<Rightarrow> (r, w\<lparr>pstate := s, calls := calls w @ [c]\<rparr>))"

subsection \<open>Construction and the identity registry\<close>

text \<open>
  \<open>constructor(id)\<close>, lines 231-248. The object is allocated, then the two guards run:
  \<open>MyClass === Room\<close> and \<open>!this.puppet\<close>.
\<close>

definition constructor :: "'p room_class \<Rightarrow> jstr \<Rightarrow> 'p world \<Rightarrow> (error + room) \<times> 'p world" where
  "constructor cls i w =
     (let w1 = log Silly ''Room'' ''constructor()'' (w\<lparr>next_ref := Suc (next_ref w)\<rparr>)
      in if is_base cls
         then (Inl (Error ''Room class can not be instanciated directly! See: https://github.com/Chatie/wechaty/issues/1217''), w1)
         else if puppet cls = None
         then (Inl (Error ''Room class can not be instanciated without a puppet!''), w1)
         else (Inr \<lparr>ref = next_ref w, rid = i\<rparr>, w1))"

text \<open>\<open>this.pool.get(id)\<close> on the entries of the map.\<close>

definition entries :: "'p world \<Rightarrow> (jstr \<times> room) list" where
  "entries w = (case pool w of None \<Rightarrow> [] | Some m \<Rightarrow> m)"

definition pool_get :: "'p world \<Rightarrow> jstr \<Rightarrow> room option" where
  "pool_get w i = map_of (entries w) i"

text \<open>
  \<open>static load(id)\<close>, lines 192-210: create the pool if it is undefined, return the
  existing room, else construct one and \<open>set\<close> it. An object is always truthy, so
  \<open>if (existingRoom)\<close> is the test that the key is present.
\<close>

definition load :: "'p room_class \<Rightarrow> jstr \<Rightarrow> 'p world \<Rightarrow> (error + room) \<times> 'p world" where
  "load cls i w =
     (let w1 = w\<lparr>pool := Some (entries w)\<rparr>
      in case pool_get w1 i of
           Some existingRoom \<Rightarrow> (Inr existingRoom, w1)
         | None \<Rightarrow>
             (case constructor cls i w1 of
                (Inl e, w2) \<Rightarrow> (Inl e, w2)
              | (Inr newRoom, w2) \<Rightarrow> (Inr newRoom, w2\<lparr>pool := Some (entries w2 @ [(i, newRoom)])\<rparr>)))"

text \<open>A run of calls to \<open>load\<close>, whatever each returns.\<close>

fun loads :: "'p room_class \<Rightarrow> jstr list \<Rightarrow> 'p world \<Rightarrow> 'p world" where
  "loads cls [] w = w"
| "loads cls (i # is) w = loads cls is (snd (load cls i w))"

text \<open>
  The states the registry can be in: every room in the pool sits under its own id, was
  allocated before, and no address occurs twice.
\<close>

definition pool_ok :: "'p world \<Rightarrow> bool" where
  "pool_ok w =
     (list_all (\<lambda>(k, r). rid r = k \<and> ref r < next_ref w) (entries w)
      \<and> distinct (map (\<lambda>(k, r). ref r) (entries w)))"

subsection \<open>Payload and readiness\<close>

text \<open>
  \<open>get payload()\<close>, lines 219-226: \<open>undefined\<close> for a falsy (empty) id, else the
  provider's cached payload. \<open>isReady()\<close>, lines 296-298, is \<open>!!(this.payload)\<close>.
\<close>

definition payload :: "'p puppet \<Rightarrow> room \<Rightarrow> 'p world \<Rightarrow> room_payload option" where
  "payload pp r w = (if rid r = [] then None else roomPayloadCache pp (pstate w) (rid r))"

definition isReady :: "'p puppet \<Rightarrow> room \<Rightarrow> 'p world \<Rightarrow> bool" where
  "isReady pp r w = (payload pp r w \<noteq> None)"

text \<open>
  \<open>Promise.all\<close> over promises that were all started: each one runs, in the order of
  the list, and the result is the first rejection if there is one. The interleaving of
  the provider's own work is not modelled.
\<close>

fun promise_all :: "('p world \<Rightarrow> (error + 'a) \<times> 'p world) list \<Rightarrow> 'p world \<Rightarrow> (error + 'a list) \<times> 'p world" where
  "promise_all [] w = (Inr [], w)"
| "promise_all (a # as) w =
     (case a w of
        (r, w1) \<Rightarrow>
          (case promise_all as w1 of
             (rs, w2) \<Rightarrow>
               (case r of
                  Inl e \<Rightarrow> (Inl e, w2)
                | Inr x \<Rightarrow> (case rs of Inl e \<Rightarrow> (Inl e, w2) | Inr xs \<Rightarrow> (Inr (x # xs), w2)))))"

text \<open>
  Modelled from the spec: \<open>this.wechaty.Contact.load(id)\<close> followed by \<open>contact.ready()\<close>
  (contact.ts is not in the source), the member's own provider-backed readiness.
\<close>

definition contact_ready :: "'p puppet \<Rightarrow> contact \<Rightarrow> 'p world \<Rightarrow> (error + unit) \<times> 'p world" where
  "contact_ready pp c w = invoke (ContactReady (cid c)) (contactReady pp (cid c)) w"

text \<open>\<open>ready(dirty = false)\<close>, lines 270-291.\<close>

definition ready :: "'p puppet \<Rightarrow> bool \<Rightarrow> room \<Rightarrow> 'p world \<Rightarrow> (error + unit) \<times> 'p world" where
  "ready pp dirty r w =
     (let w0 = log Verbose ''Room'' ''ready()'' w
      in if \<not> dirty \<and> isReady pp r w0 then (Inr (), w0)
         else
           (case (if dirty then invoke (RoomPayloadDirty (rid r)) (roomPayloadDirty pp (rid r)) w0
                  else (Inr (), w0)) of
              (Inl e, w1) \<Rightarrow> (Inl e, w1)
            | (Inr u, w1) \<Rightarrow>
                (case invoke (RoomPayload (rid r)) (roomPayload pp (rid r)) w1 of
                   (Inl e, w2) \<Rightarrow> (Inl e, w2)
                 | (Inr p, w2) \<Rightarrow>
                     (case invoke (RoomMemberList (rid r)) (roomMemberList pp (rid r)) w2 of
                        (Inl e, w3) \<Rightarrow> (Inl e, w3)
                      | (Inr memberIdList, w3) \<Rightarrow>
                          (case promise_all (map (\<lambda>i. contact_ready pp (Contact i)) memberIdList) w3 of
                             (Inl e, w4) \<Rightarrow> (Inl e, w4)
                           | (Inr us, w4) \<Rightarrow> (Inr (), w4))))))"

subsection \<open>say\<close>

text \<open>\<open>Array.prototype.join\<close> on strings, and \<open>String.fromCharCode\<close> on one code.\<close>

fun join :: "jstr \<Rightarrow> jstr list \<Rightarrow> jstr" where
  "join sep [] = []"
| "join sep [x] = x"
| "join sep (x # y # ys) = x @ sep @ join sep (y # ys)"

definition fromCharCode :: "nat \<Rightarrow> jstr" where
  "fromCharCode n = [of_nat n]"

definition AT_SEPRATOR :: jstr where
  "AT_SEPRATOR = fromCharCode 8197"

text \<open>The first argument of \<open>say\<close> by its runtime type, and the optional \<open>mention\<close>.\<close>

datatype content = Text jstr | File nat | Card contact | Other

datatype mention = NoMention | One contact | Many "contact list"

text \<open>\<open>[].concat(mention || [])\<close>: a member becomes a one-element list, a list is spread.\<close>

definition replyToList :: "mention \<Rightarrow> contact list" where
  "replyToList m = (case m of NoMention \<Rightarrow> [] | One c \<Rightarrow> [c] | Many cs \<Rightarrow> cs)"

text \<open>\<open>replyToList.length && replyToList[0].id || undefined\<close>: an empty id is falsy.\<close>

definition reply_contactId :: "contact list \<Rightarrow> jstr option" where
  "reply_contactId rl =
     (case rl of [] \<Rightarrow> None | c # cs \<Rightarrow> (if cid c = [] then None else Some (cid c)))"

text \<open>\<open>say(textOrContactOrFile, mention)\<close>, lines 327-365.\<close>

definition say :: "'p puppet \<Rightarrow> content \<Rightarrow> mention \<Rightarrow> room \<Rightarrow> 'p world \<Rightarrow> (error + unit) \<times> 'p world" where
  "say pp textOrContactOrFile m r w =
     (let w0 = log Verbose ''Room'' ''say(%s, %s)'' w;
          rl = replyToList m
      in case textOrContactOrFile of
           Text t \<Rightarrow>
             (let text = (if length rl > 0
                          then join AT_SEPRATOR (map (\<lambda>c. js ''@'' @ contactName pp (pstate w0) (cid c)) rl)
                               @ js '' '' @ t
                          else t);
                  rcv = \<lparr>roomId = Some (rid r), contactId = reply_contactId rl\<rparr>
              in invoke (MessageSendText rcv text) (messageSendText pp rcv text) w0)
         | File f \<Rightarrow>
             (let rcv = \<lparr>roomId = Some (rid r), contactId = None\<rparr>
              in invoke (MessageSendFile rcv f) (messageSendFile pp rcv f) w0)
         | Card c \<Rightarrow>
             (let rcv = \<lparr>roomId = Some (rid r), contactId = None\<rparr>
              in invoke (MessageSendContact rcv (cid c)) (messageSendContact pp rcv (cid c)) w0)
         | Other \<Rightarrow> (Inl (Error ''arg unsupported''), w0))"

subsection \<open>topic and announce\<close>

text \<open>
  The loop of lines 556-559 from index \<open>i\<close>: \<open>memberList[i]\<close> is an object, so the test
  \<open>i < 3 && memberList[i]\<close> is \<open>i < 3\<close> and \<open>i\<close> in range.
\<close>

function topic_loop :: "(contact \<Rightarrow> jstr) \<Rightarrow> contact list \<Rightarrow> nat \<Rightarrow> jstr \<Rightarrow> jstr" where
  "topic_loop nm memberList i defaultTopic =
     (if i < 3 \<and> i < length memberList
      then topic_loop nm memberList (Suc i) (defaultTopic @ js '','' @ nm (memberList ! i))
      else defaultTopic)"
  by pat_completeness auto
termination
  by (relation "measure (\<lambda>(nm, memberList, i, defaultTopic). 3 - i)") auto

text \<open>
  \<open>this.payload && this.payload.topic\<close> when it is truthy: the payload is there and its
  topic is a non-empty string.
\<close>

definition payload_topic :: "'p puppet \<Rightarrow> room \<Rightarrow> 'p world \<Rightarrow> jstr option" where
  "payload_topic pp r w =
     (case payload pp r w of
        None \<Rightarrow> None
      | Some p \<Rightarrow> (case p_topic p of None \<Rightarrow> None | Some [] \<Rightarrow> None | Some (c # cs) \<Rightarrow> Some (c # cs)))"

text \<open>
  \<open>topic(newTopic?)\<close>, lines 540-574. The result is \<open>Some\<close> string for the getter and
  \<open>None\<close> (void) for the setter. \<open>memberList[0].name()\<close> on an empty list is a call on
  \<open>undefined\<close>.
\<close>

definition topic :: "'p puppet \<Rightarrow> jstr option \<Rightarrow> room \<Rightarrow> 'p world \<Rightarrow> (error + jstr option) \<times> 'p world" where
  "topic pp newTopic r w =
     (let w0 = log Verbose ''Room'' ''topic(%s)'' w
      in if \<not> isReady pp r w0
         then (Inl (Error ''not ready''), log Warn ''Room'' ''topic() room not ready'' w0)
         else
           (case newTopic of
              None \<Rightarrow>
                (case payload_topic pp r w0 of
                   Some t \<Rightarrow> (Inr (Some t), w0)
                 | None \<Rightarrow>
                     (case invoke (RoomMemberList (rid r)) (roomMemberList pp (rid r)) w0 of
                        (Inl e, w1) \<Rightarrow> (Inl e, w1)
                      | (Inr memberIdList, w1) \<Rightarrow>
                          (let memberList = map Contact (filter (\<lambda>i. i \<noteq> selfId pp (pstate w1)) memberIdList);
                               nm = (\<lambda>c. contactName pp (pstate w1) (cid c))
                           in case memberList of
                                [] \<Rightarrow> (Inl (TypeError ''Cannot read property name of undefined''), w1)
                              | c0 # rest \<Rightarrow> (Inr (Some (topic_loop nm memberList 1 (nm c0))), w1))))
            | Some t \<Rightarrow>
                (case invoke (RoomTopic (rid r) t) (roomTopic pp (rid r) t) w0 of
                   (Inl e, w1) \<Rightarrow>
                     (Inr None, captureException e (log Warn ''Room'' ''topic(newTopic=%s) exception: %s'' w1))
                 | (Inr u, w1) \<Rightarrow> (Inr None, w1))))"

text \<open>\<open>announce(text?)\<close>, lines 579-587: \<open>if (text)\<close> is false for \<open>undefined\<close> and for \<open>""\<close>.\<close>

definition announce :: "'p puppet \<Rightarrow> jstr option \<Rightarrow> room \<Rightarrow> 'p world \<Rightarrow> (error + jstr option) \<times> 'p world" where
  "announce pp text r w =
     (let w0 = log Verbose ''Room'' ''announce(%s)'' w
      in case text of
           Some (c # cs) \<Rightarrow>
             (case invoke (RoomAnnounceSet (rid r) (c # cs)) (roomAnnounceSet pp (rid r) (c # cs)) w0 of
                (Inl e, w1) \<Rightarrow> (Inl e, w1)
              | (Inr u, w1) \<Rightarrow> (Inr None, w1))
         | _ \<Rightarrow>
             (case invoke (RoomAnnounceGet (rid r)) (roomAnnounceGet pp (rid r)) w0 of
                (Inl e, w1) \<Rightarrow> (Inl e, w1)
              | (Inr a, w1) \<Rightarrow> (Inr (Some a), w1)))"

subsection \<open>create and findAll\<close>

text \<open>
  The first argument of \<open>create\<close> as the runtime sees it. A value that is not an array
  either has a callable \<open>join\<close> (a typed array, say) or has not.
\<close>

datatype contact_list_arg =
    ArgUndefined
  | ArgNull
  | ArgNonArray (has_join: bool)
  | ArgArray "contact list"

text \<open>The \<open>try\<close> block of \<open>create\<close>, lines 89-92.\<close>

definition create_try :: "'p room_class \<Rightarrow> contact list \<Rightarrow> jstr option \<Rightarrow> 'p world \<Rightarrow> (error + room) \<times> 'p world" where
  "create_try cls contactList tp w =
     (case puppet cls of
        None \<Rightarrow> (Inl (TypeError ''Cannot read property roomCreate of undefined''), w)
      | Some pp \<Rightarrow>
          (let contactIdList = map cid contactList
           in case invoke (RoomCreate contactIdList tp) (roomCreate pp contactIdList tp) w of
                (Inl e, w1) \<Rightarrow> (Inl e, w1)
              | (Inr newRoomId, w1) \<Rightarrow> load cls newRoomId w1))"

text \<open>
  \<open>static create(contactList, topic?)\<close>, lines 81-98. The arguments of the first log
  line are evaluated before anything else, \<open>contactList.join(',')\<close> among them; the guard
  \<open>!contactList || !Array.isArray(contactList)\<close> comes next. The \<open>catch\<close> first evaluates
  the argument of its log line, \<open>e && e.stack || e.message || e\<close> (line 94): for \<open>e\<close>
  \<open>undefined\<close> or \<open>null\<close> the first operand is falsy and \<open>e.message\<close> throws a
  \<open>TypeError\<close>, which leaves \<open>create\<close> in place of \<open>e\<close>; for any other \<open>e\<close> the
  \<open>catch\<close> logs, reports to Raven and rethrows \<open>e\<close>.
\<close>

definition create :: "'p room_class \<Rightarrow> contact_list_arg \<Rightarrow> jstr option \<Rightarrow> 'p world \<Rightarrow> (error + room) \<times> 'p world" where
  "create cls contactList tp w =
     (case contactList of
        ArgUndefined \<Rightarrow> (Inl (TypeError ''Cannot read property join of undefined''), w)
      | ArgNull \<Rightarrow> (Inl (TypeError ''Cannot read property join of null''), w)
      | ArgNonArray j \<Rightarrow>
          (if j then (Inl (Error ''contactList not found''), log Verbose ''Room'' ''create(%s, %s)'' w)
           else (Inl (TypeError ''contactList.join is not a function''), w))
      | ArgArray cs \<Rightarrow>
          (case create_try cls cs tp (log Verbose ''Room'' ''create(%s, %s)'' w) of
             (Inl e, w1) \<Rightarrow>
               (case read_message e of
                  Some t \<Rightarrow> (Inl t, w1)
                | None \<Rightarrow> (Inl e, captureException e (log Err ''Room'' ''create() exception: %s'' w1)))
           | (Inr room, w1) \<Rightarrow> (Inr room, w1)))"

text \<open>\<open>roomIdList.map(id => this.load(id))\<close>: the first throw ends the map.\<close>

fun load_all :: "'p room_class \<Rightarrow> jstr list \<Rightarrow> 'p world \<Rightarrow> (error + room list) \<times> 'p world" where
  "load_all cls [] w = (Inr [], w)"
| "load_all cls (i # is) w =
     (case load cls i w of
        (Inl e, w1) \<Rightarrow> (Inl e, w1)
      | (Inr r, w1) \<Rightarrow>
          (case load_all cls is w1 of
             (Inl e, w2) \<Rightarrow> (Inl e, w2)
           | (Inr rs, w2) \<Rightarrow> (Inr (r # rs), w2)))"

text \<open>\<open>!query.topic\<close> is false for a pattern and for a non-empty string.\<close>

definition has_topic :: "query \<Rightarrow> bool" where
  "has_topic q =
     (case q_topic q of
        None \<Rightarrow> False
      | Some (TopicString s) \<Rightarrow> s \<noteq> []
      | Some (TopicRegExp p) \<Rightarrow> True)"

text \<open>The \<open>try\<close> block of \<open>findAll\<close>, lines 121-125.\<close>

definition findAll_try :: "'p room_class \<Rightarrow> query \<Rightarrow> 'p world \<Rightarrow> (error + room list) \<times> 'p world" where
  "findAll_try cls q w =
     (case puppet cls of
        None \<Rightarrow> (Inl (TypeError ''Cannot read property roomSearch of undefined''), w)
      | Some pp \<Rightarrow>
          (case invoke (RoomSearch q) (roomSearch pp q) w of
             (Inl e, w1) \<Rightarrow> (Inl e, w1)
           | (Inr roomIdList, w1) \<Rightarrow>
               (case load_all cls roomIdList w1 of
                  (Inl e, w2) \<Rightarrow> (Inl e, w2)
                | (Inr roomList, w2) \<Rightarrow>
                    (case promise_all (map (ready pp False) roomList) w2 of
                       (Inl e, w3) \<Rightarrow> (Inl e, w3)
                     | (Inr us, w3) \<Rightarrow> (Inr roomList, w3)))))"

text \<open>
  \<open>static findAll(query = { topic: /.*/ })\<close>, lines 110-133. The guard is outside the
  \<open>try\<close>. The \<open>catch\<close> first evaluates the argument of its log line, \<open>e.message\<close>
  (line 128), unguarded: for \<open>e\<close> \<open>undefined\<close> or \<open>null\<close> that throws a \<open>TypeError\<close>, with
  which \<open>findAll\<close> rejects; for any other \<open>e\<close> the \<open>catch\<close> logs, reports to Raven and
  returns \<open>[]\<close>.
\<close>

definition findAll :: "'p room_class \<Rightarrow> query option \<Rightarrow> 'p world \<Rightarrow> (error + room list) \<times> 'p world" where
  "findAll cls query w =
     (let q = (case query of None \<Rightarrow> \<lparr>q_topic = Some (TopicRegExp (js ''.*''))\<rparr> | Some q' \<Rightarrow> q');
          w0 = log Verbose ''Room'' ''findAll()'' w
      in if \<not> has_topic q then (Inl (Error ''topicFilter not found''), w0)
         else
           (case findAll_try cls q w0 of
              (Inl e, w1) \<Rightarrow>
                (case read_message e of
                   Some t \<Rightarrow> (Inl t, w1)
                 | None \<Rightarrow>
                     (Inr [], captureException e (log Verbose ''Room'' ''findAll() rejected: %s'' w1)))
            | (Inr roomList, w1) \<Rightarrow> (Inr roomList, w1)))"

subsection \<open>An in-memory provider\<close>

text \<open>
  A small provider to run the model on: a payload cache, the payloads a fetch returns,
  the member names, the provider's own id, the id the next created room gets, and a
  switch that makes every asynchronous operation reject.
\<close>

record mem =
  m_cache :: "(jstr \<times> room_payload) list"
  m_remote :: "(jstr \<times> room_payload) list"
  m_names :: "(jstr \<times> jstr) list"
  m_self :: jstr
  m_announcement :: jstr
  m_offline :: bool

definition offline :: error where
  "offline = ProviderError ''offline''"

definition guarded :: "(mem \<Rightarrow> (error + 'a) \<times> mem) \<Rightarrow> mem \<Rightarrow> (error + 'a) \<times> mem" where
  "guarded f s = (if m_offline s then (Inl offline, s) else f s)"

definition mem_members :: "mem \<Rightarrow> jstr \<Rightarrow> jstr list" where
  "mem_members s i = (case map_of (m_remote s) i of None \<Rightarrow> [] | Some p \<Rightarrow> p_memberIdList p)"

definition mem_fetch :: "jstr \<Rightarrow> mem \<Rightarrow> (error + room_payload) \<times> mem" where
  "mem_fetch i s =
     (case map_of (m_cache s) i of
        Some p \<Rightarrow> (Inr p, s)
      | None \<Rightarrow>
          (case map_of (m_remote s) i of
             None \<Rightarrow> (Inl (ProviderError ''no such room''), s)
           | Some p \<Rightarrow> (Inr p, s\<lparr>m_cache := (i, p) # m_cache s\<rparr>)))"

definition mem_puppet :: "mem puppet" where
  "mem_puppet =
     \<lparr>roomCreate = (\<lambda>ids tp. guarded (\<lambda>s.
          (Inr (js ''room-new''),
           s\<lparr>m_remote := (js ''room-new'', \<lparr>p_topic = tp, p_memberIdList = ids, p_ownerId = None\<rparr>) # m_remote s\<rparr>))),
      roomSearch = (\<lambda>q. guarded (\<lambda>s. (Inr (map fst (m_remote s)), s))),
      roomPayloadCache = (\<lambda>s i. map_of (m_cache s) i),
      roomPayloadDirty = (\<lambda>i. guarded (\<lambda>s. (Inr (), s\<lparr>m_cache := filter (\<lambda>(k, p). k \<noteq> i) (m_cache s)\<rparr>))),
      roomPayload = (\<lambda>i. guarded (mem_fetch i)),
      roomMemberList = (\<lambda>i. guarded (\<lambda>s. (Inr (mem_members s i), s))),
      roomTopic = (\<lambda>i t. guarded (\<lambda>s. (Inr (), s))),
      roomAnnounceGet = (\<lambda>i. guarded (\<lambda>s. (Inr (m_announcement s), s))),
      roomAnnounceSet = (\<lambda>i t. guarded (\<lambda>s. (Inr (), s\<lparr>m_announcement := t\<rparr>))),
      messageSendText = (\<lambda>rcv t. guarded (\<lambda>s. (Inr (), s))),
      messageSendFile = (\<lambda>rcv f. guarded (\<lambda>s. (Inr (), s))),
      messageSendContact = (\<lambda>rcv c. guarded (\<lambda>s. (Inr (), s))),
      selfId = m_self,
      contactReady = (\<lambda>c. guarded (\<lambda>s. (Inr (), s))),
      contactName = (\<lambda>s c. (case map_of (m_names s) c of None \<Rightarrow> [] | Some n \<Rightarrow> n))\<rparr>"

text \<open>A subclass of \<open>Room\<close> bound to the in-memory provider, and \<open>Room\<close> itself.\<close>

definition bound_class :: "mem room_class" where
  "bound_class = \<lparr>is_base = False, puppet = Some mem_puppet\<rparr>"

definition base_class :: "mem room_class" where
  "base_class = \<lparr>is_base = True, puppet = Some mem_puppet\<rparr>"

text \<open>
  A provider state: the room \<open>room-1\<close> with no topic and the members bot, Alice, Bob,
  Carol and Dave is cached; the room \<open>room-2\<close>, whose only member is the bot, is cached
  too; \<open>room-3\<close> is known but not fetched.
\<close>

definition payload1 :: room_payload where
  "payload1 = \<lparr>p_topic = None,
               p_memberIdList = [js ''bot'', js ''a'', js ''b'', js ''c'', js ''d''],
               p_ownerId = None\<rparr>"

definition payload2 :: room_payload where
  "payload2 = \<lparr>p_topic = None, p_memberIdList = [js ''bot''], p_ownerId = None\<rparr>"

definition payload3 :: room_payload where
  "payload3 = \<lparr>p_topic = Some (js ''ding''), p_memberIdList = [js ''bot'', js ''a''], p_ownerId = None\<rparr>"

definition mem0 :: mem where
  "mem0 =
     \<lparr>m_cache = [(js ''room-1'', payload1), (js ''room-2'', payload2)],
      m_remote = [(js ''room-1'', payload1), (js ''room-2'', payload2), (js ''room-3'', payload3)],
      m_names = [(js ''a'', js ''Alice''), (js ''b'', js ''Bob''), (js ''c'', js ''Carol''),
                 (js ''d'', js ''Dave''), (js ''bot'', js ''Bot'')],
      m_self = js ''bot'',
      m_announcement = js ''welcome'',
      m_offline = False\<rparr>"

definition room1 :: room where
  "room1 = \<lparr>ref = 0, rid = js ''room-1''\<rparr>"

definition room2 :: room where
  "room2 = \<lparr>ref = 1, rid = js ''room-2''\<rparr>"

definition room3 :: room where
  "room3 = \<lparr>ref = 2, rid = js ''room-3''\<rparr>"

text \<open>A subclass of \<open>Room\<close> for which no provider is available.\<close>

definition unbound_class :: "mem room_class" where
  "unbound_class = \<lparr>is_base = False, puppet = None\<rparr>"

text \<open>
  Modelled from the spec: what the provider's fetch-and-cache-payload call is said to do
  (the provider itself is not in the source). A payload that was fetched is retrievable
  from the cache afterwards, and the operations that \<open>ready()\<close> calls evict nothing.
\<close>

definition caching_provider :: "'p puppet \<Rightarrow> bool" where
  "caching_provider pp =
     ((\<forall>i s p s'. roomPayload pp i s = (Inr p, s') \<longrightarrow> roomPayloadCache pp s' i \<noteq> None)
      \<and> (\<forall>i j s. roomPayloadCache pp s i \<noteq> None \<longrightarrow>
            roomPayloadCache pp (snd (roomPayload pp j s)) i \<noteq> None
            \<and> roomPayloadCache pp (snd (roomMemberList pp j s)) i \<noteq> None
            \<and> roomPayloadCache pp (snd (contactReady pp j s)) i \<noteq> None))"

text \<open>
  The in-memory provider with a search and a create-room that reject with a given value,
  and a subclass of \<open>Room\<close> bound to it.
\<close>

definition rejecting_puppet :: "error \<Rightarrow> mem puppet" where
  "rejecting_puppet e =
     mem_puppet\<lparr>roomCreate := (\<lambda>ids tp s. (Inl e, s)), roomSearch := (\<lambda>q s. (Inl e, s))\<rparr>"

definition rejecting_class :: "error \<Rightarrow> mem room_class" where
  "rejecting_class e = \<lparr>is_base = False, puppet = Some (rejecting_puppet e)\<rparr>"

text \<open>A query by topic string.\<close>

definition q_ding :: query where
  "q_ding = \<lparr>q_topic = Some (TopicString (js ''ding''))\<rparr>"

section \<open>Properties\<close>

subsection \<open>The identity registry\<close>

lemma entries_pool_Some [simp]: "entries (w\<lparr>pool := Some m\<rparr>) = m"
  by (simp add: entries_def)

lemma constructor_result:
  "constructor cls i w = (res, w') \<Longrightarrow>
     entries w' = entries w \<and> next_ref w' = Suc (next_ref w) \<and>
     (\<forall>r. res = Inr r \<longrightarrow> r = \<lparr>ref = next_ref w, rid = i\<rparr>)"
  by (auto simp: constructor_def log_def entries_def Let_def split: if_splits)

lemma load_hit:
  "pool_get w i = Some r \<Longrightarrow> load cls i w = (Inr r, w\<lparr>pool := Some (entries w)\<rparr>)"
  by (simp add: load_def pool_get_def)

lemma load_miss:
  assumes "pool_get w i = None" and "load cls i w = (Inr r, w')"
  shows "r = \<lparr>ref = next_ref w, rid = i\<rparr> \<and> entries w' = entries w @ [(i, r)]
         \<and> next_ref w' = Suc (next_ref w)"
proof -
  obtain res w2 where c: "constructor cls i (w\<lparr>pool := Some (entries w)\<rparr>) = (res, w2)"
    by (cases "constructor cls i (w\<lparr>pool := Some (entries w)\<rparr>)")
  from constructor_result [OF c]
  have e: "entries w2 = entries w" and n: "next_ref w2 = Suc (next_ref w)"
    and r: "\<forall>r. res = Inr r \<longrightarrow> r = \<lparr>ref = next_ref w, rid = i\<rparr>"
    by simp_all
  from assms c have "res = Inr r \<and> w' = w2\<lparr>pool := Some (entries w2 @ [(i, r)])\<rparr>"
    by (auto simp: load_def pool_get_def split: sum.splits)
  with e n r show ?thesis by simp
qed

lemma load_throws:
  assumes "load cls i w = (Inl e, w')"
  shows "pool_get w i = None \<and> entries w' = entries w"
proof -
  obtain res w2 where c: "constructor cls i (w\<lparr>pool := Some (entries w)\<rparr>) = (res, w2)"
    by (cases "constructor cls i (w\<lparr>pool := Some (entries w)\<rparr>)")
  from constructor_result [OF c] have e: "entries w2 = entries w" by simp
  from assms c have "pool_get w i = None \<and> w' = w2"
    by (auto simp: load_def pool_get_def Let_def split: option.splits sum.splits)
  with e show ?thesis by simp
qed

lemma load_next_ref: "next_ref w \<le> next_ref (snd (load cls i w))"
proof (cases "pool_get w i")
  case None
  obtain res w' where l: "load cls i w = (res, w')" by (cases "load cls i w")
  obtain res2 w2 where c: "constructor cls i (w\<lparr>pool := Some (entries w)\<rparr>) = (res2, w2)"
    by (cases "constructor cls i (w\<lparr>pool := Some (entries w)\<rparr>)")
  from constructor_result [OF c] have "next_ref w2 = Suc (next_ref w)" by simp
  with None l c show ?thesis
    by (auto simp: load_def pool_get_def split: sum.splits)
next
  case (Some r)
  then show ?thesis by (simp add: load_hit)
qed

lemma load_pool_ok:
  assumes "pool_ok w"
  shows "pool_ok (snd (load cls i w))"
proof (cases "load cls i w")
  case (Pair res w')
  show ?thesis
  proof (cases "pool_get w i")
    case (Some r)
    with assms show ?thesis by (simp add: load_hit pool_ok_def)
  next
    case None
    show ?thesis
    proof (cases res)
      case (Inl e)
      with Pair have l: "load cls i w = (Inl e, w')" by simp
      from load_throws [OF l] have e: "entries w' = entries w" by simp
      from load_next_ref [of w cls i] Pair have "next_ref w \<le> next_ref w'" by simp
      with assms e Pair show ?thesis
        by (auto simp: pool_ok_def list_all_iff)
    next
      case (Inr r)
      with Pair have l: "load cls i w = (Inr r, w')" by simp
      from load_miss [OF None l]
      have r: "r = \<lparr>ref = next_ref w, rid = i\<rparr>" and e: "entries w' = entries w @ [(i, r)]"
        and n: "next_ref w' = Suc (next_ref w)" by simp_all
      from assms have "\<forall>(k, x) \<in> set (entries w). ref x < next_ref w"
        by (auto simp: pool_ok_def list_all_iff)
      then have "next_ref w \<notin> (\<lambda>(k, x). ref x) ` set (entries w)" by auto
      with assms r e n Pair show ?thesis
        by (auto simp: pool_ok_def list_all_iff)
    qed
  qed
qed

lemma load_keeps:
  assumes "pool_get w j = Some r"
  shows "pool_get (snd (load cls i w)) j = Some r"
proof (cases "load cls i w")
  case (Pair res w')
  show ?thesis
  proof (cases "pool_get w i")
    case (Some x)
    with assms show ?thesis by (simp add: load_hit pool_get_def)
  next
    case None
    show ?thesis
    proof (cases res)
      case (Inl e)
      with Pair load_throws [of cls i w e w'] assms show ?thesis by (simp add: pool_get_def)
    next
      case (Inr x)
      with Pair load_miss [OF None, of cls x w'] assms show ?thesis
        by (simp add: pool_get_def map_add_def)
    qed
  qed
qed

lemma load_returns_entry:
  assumes "load cls i w = (Inr r, w')"
  shows "pool_get w' i = Some r"
proof (cases "pool_get w i")
  case None
  from load_miss [OF None assms] have e: "entries w' = entries w @ [(i, r)]" by simp
  with None show ?thesis by (simp add: pool_get_def map_add_def)
next
  case (Some x)
  from load_hit [OF Some, of cls] assms
  have "x = r" and "w' = w\<lparr>pool := Some (entries w)\<rparr>" by simp_all
  with Some show ?thesis by (simp add: pool_get_def)
qed

lemma pool_ok_init: "pool_ok (init_world s)"
  by (simp add: pool_ok_def entries_def init_world_def)

lemma loads_pool_ok: "pool_ok w \<Longrightarrow> pool_ok (loads cls ks w)"
  by (induction ks arbitrary: w) (simp_all add: load_pool_ok)

lemma loads_keeps: "pool_get w j = Some r \<Longrightarrow> pool_get (loads cls ks w) j = Some r"
  by (induction ks arbitrary: w) (simp_all add: load_keeps)

lemma pool_ok_distinct_refs:
  assumes "pool_ok w" and "pool_get w i = Some r" and "pool_get w j = Some r'" and "i \<noteq> j"
  shows "ref r \<noteq> ref r'"
proof
  assume eq: "ref r = ref r'"
  from assms(2,3) have m: "(i, r) \<in> set (entries w)" "(j, r') \<in> set (entries w)"
    by (auto simp: pool_get_def dest: map_of_SomeD)
  from assms(1) have "inj_on (\<lambda>(k, x). ref x) (set (entries w))"
    by (simp add: pool_ok_def distinct_map)
  from inj_onD [OF this _ m] eq have "(i, r) = (j, r')" by simp
  with assms(4) show False by simp
qed

text \<open>
  Claim C1. From a state of the registry, let \<open>load i\<close> return \<open>r1\<close>, let any run of
  further loads follow, and let \<open>load j\<close> return \<open>r2\<close>. If \<open>i = j\<close> the two results are
  the same instance; if \<open>i \<noteq> j\<close> their addresses differ. The first load appends the
  entry \<open>(i, r1)\<close> to the pool exactly when the pool had no instance for \<open>i\<close>, and then
  \<open>r1\<close> is the newly allocated room with id \<open>i\<close>; otherwise the pool keeps its entries,
  nothing is allocated and \<open>r1\<close> is the instance that was there.
\<close>

theorem load_one_instance_per_id:
  assumes ok: "pool_ok w"
    and l1: "load cls i w = (Inr r1, w1)"
    and l2: "load cls j (loads cls ks w1) = (Inr r2, w2)"
  shows "(i = j \<longrightarrow> r1 = r2) \<and> (i \<noteq> j \<longrightarrow> ref r1 \<noteq> ref r2)
         \<and> entries w1 = (if pool_get w i = None then entries w @ [(i, r1)] else entries w)
         \<and> (pool_get w i = None \<longrightarrow> r1 = \<lparr>ref = next_ref w, rid = i\<rparr>)
         \<and> (pool_get w i \<noteq> None \<longrightarrow> pool_get w i = Some r1 \<and> next_ref w1 = next_ref w)"
proof -
  let ?w = "loads cls ks w1"
  from load_pool_ok [OF ok, of cls i] l1 have ok1: "pool_ok w1" by simp
  then have ok2: "pool_ok ?w" by (rule loads_pool_ok)
  from load_pool_ok [OF ok2, of cls j] l2 have ok3: "pool_ok w2" by simp
  from load_returns_entry [OF l1] have "pool_get w1 i = Some r1" .
  then have g1: "pool_get ?w i = Some r1" by (rule loads_keeps)
  from load_keeps [OF g1, of cls j] l2 have g13: "pool_get w2 i = Some r1" by simp
  from load_returns_entry [OF l2] have g2: "pool_get w2 j = Some r2" .
  have same: "i = j \<longrightarrow> r1 = r2" using g13 g2 by auto
  have diff: "i \<noteq> j \<longrightarrow> ref r1 \<noteq> ref r2"
    using pool_ok_distinct_refs [OF ok3 g13 g2] by simp
  have ins: "entries w1 = (if pool_get w i = None then entries w @ [(i, r1)] else entries w)"
  proof (cases "pool_get w i")
    case None
    from load_miss [OF None l1] None show ?thesis by simp
  next
    case (Some x)
    with l1 show ?thesis by (auto simp: load_hit)
  qed
  have new: "pool_get w i = None \<longrightarrow> r1 = \<lparr>ref = next_ref w, rid = i\<rparr>"
    using load_miss [OF _ l1] by simp
  have old: "pool_get w i \<noteq> None \<longrightarrow> pool_get w i = Some r1 \<and> next_ref w1 = next_ref w"
    using l1 by (auto simp: load_hit)
  from same diff ins new old show ?thesis by blast
qed


text \<open>The definitions a run on a concrete input unfolds.\<close>

lemmas run_defs = load_def constructor_def entries_def pool_get_def log_def init_world_def
  bound_class_def base_class_def js_def Let_def

theorem load_one_instance_per_id_witness:
  "pool_ok (init_world mem0)
   \<and> fst (load bound_class (js ''room-1'') (init_world mem0)) = Inr \<lparr>ref = 0, rid = js ''room-1''\<rparr>
   \<and> fst (load bound_class (js ''room-1'')
            (loads bound_class [js ''room-2''] (snd (load bound_class (js ''room-1'') (init_world mem0)))))
       = Inr \<lparr>ref = 0, rid = js ''room-1''\<rparr>
   \<and> fst (load bound_class (js ''room-3'')
            (loads bound_class [js ''room-2''] (snd (load bound_class (js ''room-1'') (init_world mem0)))))
       = Inr \<lparr>ref = 2, rid = js ''room-3''\<rparr>
   \<and> entries (snd (load bound_class (js ''room-1'') (init_world mem0)))
       = [(js ''room-1'', \<lparr>ref = 0, rid = js ''room-1''\<rparr>)]"
proof -
  let ?w = "init_world mem0 :: mem world"
  let ?r = "\<lparr>ref = 0, rid = js ''room-1''\<rparr>"
  let ?r3 = "\<lparr>ref = 2, rid = js ''room-3''\<rparr>"
  let ?w1 = "snd (load bound_class (js ''room-1'') ?w)"
  let ?w2 = "snd (load bound_class (js ''room-1'') (loads bound_class [js ''room-2''] ?w1))"
  let ?w3 = "snd (load bound_class (js ''room-3'') (loads bound_class [js ''room-2''] ?w1))"
  have ok: "pool_ok ?w" by (simp add: pool_ok_def entries_def init_world_def)
  have f1: "fst (load bound_class (js ''room-1'') ?w) = Inr ?r" by (simp add: run_defs)
  then have l1: "load bound_class (js ''room-1'') ?w = (Inr ?r, ?w1)" by (simp add: prod_eq_iff)
  have f2: "fst (load bound_class (js ''room-1'') (loads bound_class [js ''room-2''] ?w1)) = Inr ?r"
    by (simp add: run_defs)
  then have l2: "load bound_class (js ''room-1'') (loads bound_class [js ''room-2''] ?w1) = (Inr ?r, ?w2)"
    by (simp add: prod_eq_iff)
  have f3: "fst (load bound_class (js ''room-3'') (loads bound_class [js ''room-2''] ?w1)) = Inr ?r3"
    by (simp add: run_defs)
  then have l3: "load bound_class (js ''room-3'') (loads bound_class [js ''room-2''] ?w1) = (Inr ?r3, ?w3)"
    by (simp add: prod_eq_iff)
  have g: "pool_get ?w (js ''room-1'') = None" "entries ?w = []" by (simp_all add: run_defs)
  from load_one_instance_per_id [OF ok l1 l2] load_one_instance_per_id [OF ok l1 l3] g ok f1 f2 f3
  show ?thesis by simp
qed

subsection \<open>Construction\<close>

text \<open>
  Claim C9. Constructing \<open>Room\<close> itself, for any id, throws the error of line 241; a
  subclass with no provider throws the error of line 245. Neither way does \<open>load\<close>
  return or insert anything for an id that has no instance.
\<close>

theorem constructor_guards:
  "(is_base cls \<longrightarrow>
      fst (constructor cls i w) = Inl (Error ''Room class can not be instanciated directly! See: https://github.com/Chatie/wechaty/issues/1217''))
   \<and> (\<not> is_base cls \<and> puppet cls = None \<longrightarrow>
      fst (constructor cls i w) = Inl (Error ''Room class can not be instanciated without a puppet!''))
   \<and> ((is_base cls \<or> puppet cls = None) \<and> pool_get w i = None \<longrightarrow>
      (\<exists>e. fst (load cls i w) = Inl e) \<and> entries (snd (load cls i w)) = entries w)"
proof -
  have a: "(is_base cls \<or> puppet cls = None) \<and> pool_get w i = None \<longrightarrow>
             (\<exists>e. fst (load cls i w) = Inl e) \<and> entries (snd (load cls i w)) = entries w"
    by (auto simp: load_def constructor_def log_def Let_def pool_get_def entries_def)
  show ?thesis using a by (simp add: constructor_def Let_def)
qed

theorem constructor_guards_witness:
  "is_base base_class
   \<and> fst (constructor base_class (js ''room-1'') (init_world mem0)) =
       Inl (Error ''Room class can not be instanciated directly! See: https://github.com/Chatie/wechaty/issues/1217'')
   \<and> \<not> is_base unbound_class \<and> puppet unbound_class = None
   \<and> fst (constructor unbound_class (js ''room-1'') (init_world mem0)) =
       Inl (Error ''Room class can not be instanciated without a puppet!'')
   \<and> pool_get (init_world mem0) (js ''room-1'') = None
   \<and> (\<exists>e. fst (load base_class (js ''room-1'') (init_world mem0)) = Inl e)"
  using constructor_guards [of base_class "js ''room-1''" "init_world mem0"]
    constructor_guards [of unbound_class "js ''room-1''" "init_world mem0"]
  by (simp add: base_class_def unbound_class_def pool_get_def entries_def init_world_def)

subsection \<open>Elementary facts about the world\<close>

lemma invoke_calls: "calls (snd (invoke c f w)) = calls w @ [c]"
  by (simp add: invoke_def split: prod.splits)

lemma invoke_fst: "fst (invoke c f w) = fst (f (pstate w))"
  by (simp add: invoke_def split: prod.splits)

lemma invoke_world:
  "snd (invoke c f w) = w\<lparr>pstate := snd (f (pstate w)), calls := calls w @ [c]\<rparr>"
  by (simp add: invoke_def split: prod.splits)

lemma isReady_log [simp]: "isReady pp r (log lv tag fmt w) = isReady pp r w"
  by (simp add: isReady_def payload_def log_def)

lemma payload_topic_log [simp]: "payload_topic pp r (log lv tag fmt w) = payload_topic pp r w"
  by (simp add: payload_topic_def payload_def log_def)

lemma log_sel [simp]:
  "calls (log lv tag fmt w) = calls w" "pstate (log lv tag fmt w) = pstate w"
  "pool (log lv tag fmt w) = pool w" "next_ref (log lv tag fmt w) = next_ref w"
  "raven (log lv tag fmt w) = raven w" "logs (log lv tag fmt w) = logs w @ [(lv, tag, fmt)]"
  by (simp_all add: log_def)

subsection \<open>announce\<close>

text \<open>
  Claim C10. \<open>announce("")\<close> is the getter: it does what \<open>announce()\<close> does, its one
  provider call is the announcement read, and it returns what the read returns. The
  announcement write is called for a non-empty text, and only then.
\<close>

theorem announce_empty_string_reads:
  "announce pp (Some []) r w = announce pp None r w
   \<and> calls (snd (announce pp (Some []) r w)) = calls w @ [RoomAnnounceGet (rid r)]
   \<and> fst (announce pp (Some []) r w) =
       (case fst (roomAnnounceGet pp (rid r) (pstate w)) of Inl e \<Rightarrow> Inl e | Inr a \<Rightarrow> Inr (Some a))
   \<and> calls (snd (announce pp None r w)) = calls w @ [RoomAnnounceGet (rid r)]
   \<and> calls (snd (announce pp (Some (c # cs)) r w)) = calls w @ [RoomAnnounceSet (rid r) (c # cs)]"
  by (simp add: announce_def Let_def invoke_def split: prod.splits sum.splits)


subsection \<open>ready\<close>

lemma promise_all_snd_Cons:
  "snd (promise_all (a # as) w) = snd (promise_all as (snd (a w)))"
  by (simp split: prod.splits sum.splits)

lemma promise_all_contact_ready_calls:
  "calls (snd (promise_all (map (\<lambda>i. contact_ready pp (Contact i)) ids) w))
     = calls w @ map ContactReady ids"
proof (induction ids arbitrary: w)
  case Nil
  show ?case by simp
next
  case (Cons i ids)
  have "calls (snd (contact_ready pp (Contact i) w)) = calls w @ [ContactReady i]"
    by (simp add: contact_ready_def invoke_calls)
  with Cons.IH [of "snd (contact_ready pp (Contact i) w)"] show ?case
    by (simp add: promise_all_snd_Cons del: promise_all.simps)
qed

lemma promise_all_contact_ready_callsD:
  "promise_all (map (\<lambda>i. contact_ready pp (Contact i)) ids) w = (res, w')
     \<Longrightarrow> calls w' = calls w @ map ContactReady ids"
  using promise_all_contact_ready_calls [of pp ids w] by simp

text \<open>
  Claim C7. \<open>ready(false)\<close> on a room that is ready returns with the world as it was but
  for its one log line: no provider call, the provider state, the pool and the captured
  exceptions unchanged. With \<open>dirty\<close> the first provider call is the invalidation; on a
  room that is not ready the first call is the fetch; any provider call at all means
  \<open>dirty\<close> or not ready; and a \<open>ready\<close> that resolves past the shortcut has called the
  invalidation (if \<open>dirty\<close>), the fetch, the member list and each member's readiness, in
  this order.
\<close>

theorem ready_only_when_needed:
  "(\<not> dirty \<and> isReady pp r w \<longrightarrow>
      ready pp dirty r w = (Inr (), w\<lparr>logs := logs w @ [(Verbose, ''Room'', ''ready()'')]\<rparr>))
   \<and> (dirty \<longrightarrow> (\<exists>cs. calls (snd (ready pp dirty r w)) = calls w @ RoomPayloadDirty (rid r) # cs))
   \<and> (\<not> dirty \<and> \<not> isReady pp r w \<longrightarrow>
        (\<exists>cs. calls (snd (ready pp dirty r w)) = calls w @ RoomPayload (rid r) # cs))
   \<and> (calls (snd (ready pp dirty r w)) \<noteq> calls w \<longrightarrow> dirty \<or> \<not> isReady pp r w)
   \<and> (fst (ready pp dirty r w) = Inr () \<and> (dirty \<or> \<not> isReady pp r w) \<longrightarrow>
        (\<exists>ids. calls (snd (ready pp dirty r w)) =
           calls w @ (if dirty then [RoomPayloadDirty (rid r)] else [])
                   @ [RoomPayload (rid r), RoomMemberList (rid r)] @ map ContactReady ids))"
proof -
  let ?w0 = "log Verbose ''Room'' ''ready()'' w"
  have noop: "\<not> dirty \<and> isReady pp r w \<longrightarrow>
      ready pp dirty r w = (Inr (), w\<lparr>logs := logs w @ [(Verbose, ''Room'', ''ready()'')]\<rparr>)"
    by (simp add: ready_def Let_def log_def isReady_def payload_def)
  have first_dirty: "dirty \<longrightarrow> (\<exists>cs. calls (snd (ready pp dirty r w)) = calls w @ RoomPayloadDirty (rid r) # cs)"
    by (auto simp: ready_def Let_def invoke_def
             dest!: promise_all_contact_ready_callsD split: prod.splits sum.splits)
  have first_fetch: "\<not> dirty \<and> \<not> isReady pp r w \<longrightarrow>
        (\<exists>cs. calls (snd (ready pp dirty r w)) = calls w @ RoomPayload (rid r) # cs)"
    by (auto simp: ready_def Let_def invoke_def
             dest!: promise_all_contact_ready_callsD split: prod.splits sum.splits)
  have only: "calls (snd (ready pp dirty r w)) \<noteq> calls w \<longrightarrow> dirty \<or> \<not> isReady pp r w"
    using noop by auto
  have full: "fst (ready pp dirty r w) = Inr () \<and> (dirty \<or> \<not> isReady pp r w) \<longrightarrow>
        (\<exists>ids. calls (snd (ready pp dirty r w)) =
           calls w @ (if dirty then [RoomPayloadDirty (rid r)] else [])
                   @ [RoomPayload (rid r), RoomMemberList (rid r)] @ map ContactReady ids)"
    by (auto simp: ready_def Let_def invoke_def
             dest!: promise_all_contact_ready_callsD split: prod.splits sum.splits)
  from noop first_dirty first_fetch only full show ?thesis by blast
qed


text \<open>The definitions of the in-memory provider and of the accessors.\<close>

lemmas mem_defs = mem_puppet_def mem0_def guarded_def mem_fetch_def mem_members_def
  payload1_def payload2_def payload3_def room1_def room2_def room3_def offline_def

lemmas op_defs = isReady_def payload_def payload_topic_def invoke_def contact_ready_def


theorem ready_only_when_needed_witness:
  "isReady mem_puppet room1 (init_world mem0)
   \<and> ready mem_puppet False room1 (init_world mem0)
       = (Inr (), (init_world mem0)\<lparr>logs := [(Verbose, ''Room'', ''ready()'')]\<rparr>)
   \<and> \<not> isReady mem_puppet room3 (init_world mem0)
   \<and> fst (ready mem_puppet False room3 (init_world mem0)) = Inr ()
   \<and> calls (snd (ready mem_puppet False room3 (init_world mem0))) =
        [RoomPayload (js ''room-3''), RoomMemberList (js ''room-3''),
         ContactReady (js ''bot''), ContactReady (js ''a'')]
   \<and> (\<exists>cs. calls (snd (ready mem_puppet True room1 (init_world mem0))) =
         RoomPayloadDirty (js ''room-1'') # cs)"
proof -
  have r1: "isReady mem_puppet room1 (init_world mem0)"
    by (simp add: op_defs mem_defs run_defs)
  have r3: "\<not> isReady mem_puppet room3 (init_world mem0)"
    by (simp add: op_defs mem_defs run_defs)
  have f3: "fst (ready mem_puppet False room3 (init_world mem0)) = Inr ()"
    by (simp add: ready_def op_defs mem_defs run_defs)
  have c3: "calls (snd (ready mem_puppet False room3 (init_world mem0))) =
        [RoomPayload (js ''room-3''), RoomMemberList (js ''room-3''),
         ContactReady (js ''bot''), ContactReady (js ''a'')]"
    by (simp add: ready_def op_defs mem_defs run_defs)
  from ready_only_when_needed [of False mem_puppet room1 "init_world mem0"]
    ready_only_when_needed [of False mem_puppet room3 "init_world mem0"]
    ready_only_when_needed [of True mem_puppet room1 "init_world mem0"]
    r1 r3 f3 c3
  show ?thesis by (simp add: init_world_def room1_def)
qed


subsection \<open>topic\<close>

text \<open>
  Claim C8. On a ready room the setter \<open>topic(t)\<close>, for every string \<open>t\<close>, calls the
  provider's rename once and resolves with no value, whatever the provider answers. If
  the rename rejects with \<open>e\<close>, a warning is logged, \<open>e\<close> is reported to Raven, and no
  error reaches the caller.
\<close>

theorem topic_set_swallows_provider_error:
  assumes "isReady pp r w"
  shows "fst (topic pp (Some t) r w) = Inr None
    \<and> calls (snd (topic pp (Some t) r w)) = calls w @ [RoomTopic (rid r) t]
    \<and> (\<forall>e. fst (roomTopic pp (rid r) t (pstate w)) = Inl e \<longrightarrow>
          logs (snd (topic pp (Some t) r w)) =
            logs w @ [(Verbose, ''Room'', ''topic(%s)''),
                      (Warn, ''Room'', ''topic(newTopic=%s) exception: %s'')]
          \<and> raven (snd (topic pp (Some t) r w)) = raven w @ [e])"
  using assms
  by (auto simp: topic_def Let_def invoke_def captureException_def split: prod.splits sum.splits)

theorem topic_set_swallows_provider_error_witness:
  "isReady mem_puppet room1 (init_world (mem0\<lparr>m_offline := True\<rparr>))
   \<and> fst (roomTopic mem_puppet (rid room1) (js ''ding'') (mem0\<lparr>m_offline := True\<rparr>)) = Inl offline
   \<and> fst (topic mem_puppet (Some (js ''ding'')) room1 (init_world (mem0\<lparr>m_offline := True\<rparr>))) = Inr None
   \<and> raven (snd (topic mem_puppet (Some (js ''ding'')) room1 (init_world (mem0\<lparr>m_offline := True\<rparr>))))
       = [offline]"
proof -
  let ?w = "init_world (mem0\<lparr>m_offline := True\<rparr>)"
  have r: "isReady mem_puppet room1 ?w"
    by (simp add: op_defs mem_defs run_defs)
  have f: "fst (roomTopic mem_puppet (rid room1) (js ''ding'') (pstate ?w)) = Inl offline"
    by (simp add: mem_defs run_defs)
  from topic_set_swallows_provider_error [OF r, of "js ''ding''"] r f show ?thesis
    by (simp add: init_world_def)
qed

text \<open>
  Claim C3, as stated, fails: the readiness guard of lines 542-545 comes before the test
  for the getter form. On \<open>room-3\<close>, whose payload is not cached, \<open>topic()\<close> throws
  \<open>not ready\<close>.
\<close>

theorem topic_get_not_ready_counterexample:
  "\<not> isReady mem_puppet room3 (init_world mem0)
   \<and> fst (topic mem_puppet None room3 (init_world mem0)) = Inl (Error ''not ready'')"
  by (simp add: topic_def op_defs mem_defs run_defs)

text \<open>
  Claim C3, amended. The readiness precondition applies to both forms of \<open>topic\<close>: on a
  room that is not ready, \<open>topic()\<close> and \<open>topic(newTopic)\<close> both log a warning and throw
  \<open>not ready\<close> without a provider call. On a ready room whose payload has a non-empty
  topic the getter returns it, again without a provider call.
\<close>

theorem topic_requires_ready:
  "(\<not> isReady pp r w \<longrightarrow>
      topic pp newTopic r w =
        (Inl (Error ''not ready''),
         w\<lparr>logs := logs w @ [(Verbose, ''Room'', ''topic(%s)''), (Warn, ''Room'', ''topic() room not ready'')]\<rparr>))
   \<and> (isReady pp r w \<and> payload_topic pp r w = Some t \<longrightarrow>
      topic pp None r w = (Inr (Some t), w\<lparr>logs := logs w @ [(Verbose, ''Room'', ''topic(%s)'')]\<rparr>))"
  by (simp add: topic_def Let_def log_def isReady_def payload_def payload_topic_def)

theorem topic_requires_ready_witness:
  "\<not> isReady mem_puppet room3 (init_world mem0)
   \<and> fst (topic mem_puppet None room3 (init_world mem0)) = Inl (Error ''not ready'')
   \<and> fst (topic mem_puppet (Some (js ''ding'')) room3 (init_world mem0)) = Inl (Error ''not ready'')
   \<and> isReady mem_puppet room3 (snd (ready mem_puppet False room3 (init_world mem0)))
   \<and> payload_topic mem_puppet room3 (snd (ready mem_puppet False room3 (init_world mem0))) = Some (js ''ding'')
   \<and> fst (topic mem_puppet None room3 (snd (ready mem_puppet False room3 (init_world mem0)))) = Inr (Some (js ''ding''))"
proof -
  let ?w = "init_world mem0 :: mem world"
  let ?w' = "snd (ready mem_puppet False room3 ?w)"
  have n: "\<not> isReady mem_puppet room3 ?w"
    by (simp add: op_defs mem_defs run_defs)
  have p: "payload_topic mem_puppet room3 ?w' = Some (js ''ding'')"
    by (simp add: ready_def op_defs mem_defs run_defs)
  then have y: "isReady mem_puppet room3 ?w'"
    by (auto simp: isReady_def payload_topic_def split: option.splits)
  from topic_requires_ready [where pp = mem_puppet and r = room3 and w = ?w and newTopic = None]
    topic_requires_ready [where pp = mem_puppet and r = room3 and w = ?w and newTopic = "Some (js ''ding'')"]
    topic_requires_ready [where pp = mem_puppet and r = room3 and w = ?w' and t = "js ''ding''"]
    n p y show ?thesis by simp
qed


text \<open>
  The default topic. With at least one member left after the provider's own id is
  filtered out, the getter returns the names of the first three at most, joined by commas.
\<close>

lemma topic_loop_join:
  "topic_loop nm (c0 # rest) 1 (nm c0) = join (js '','') (map nm (take 3 (c0 # rest)))"
proof (cases rest)
  case Nil
  then show ?thesis by (simp add: topic_loop.simps [of _ _ "Suc 0"])
next
  case (Cons c1 rest1)
  show ?thesis
  proof (cases rest1)
    case Nil
    with Cons show ?thesis
      by (simp add: topic_loop.simps [of _ _ "Suc 0"] topic_loop.simps [of _ _ "Suc (Suc 0)"])
  next
    case (Cons c2 rest2)
    with \<open>rest = c1 # rest1\<close> show ?thesis
      by (simp add: topic_loop.simps [of _ _ "Suc 0"] topic_loop.simps [of _ _ "Suc (Suc 0)"]
            topic_loop.simps [of _ _ "Suc (Suc (Suc 0))"] numeral_3_eq_3)
  qed
qed

lemma topic_default_of_members:
  assumes "isReady pp r w" and "payload_topic pp r w = None"
    and "roomMemberList pp (rid r) (pstate w) = (Inr ids, s)"
    and "filter (\<lambda>i. i \<noteq> selfId pp s) ids \<noteq> []"
  shows "fst (topic pp None r w) =
           Inr (Some (join (js '','') (map (contactName pp s) (take 3 (filter (\<lambda>i. i \<noteq> selfId pp s) ids)))))"
proof -
  obtain i0 rest where f: "filter (\<lambda>i. i \<noteq> selfId pp s) ids = i0 # rest"
    using assms(4) by (cases "filter (\<lambda>i. i \<noteq> selfId pp s) ids") auto
  have "map (\<lambda>c. contactName pp s (cid c)) (take 3 (Contact i0 # map Contact rest))
          = map (contactName pp s) (take 3 (i0 # rest))"
    by (simp add: take_map [symmetric] del: take_map) (simp add: take_map comp_def take_Cons')
  with assms(1-3) f
    topic_loop_join [of "\<lambda>c. contactName pp s (cid c)" "Contact i0" "map Contact rest"]
  show ?thesis
    by (simp add: topic_def Let_def invoke_def)
qed

lemma topic_default_example:
  "fst (topic mem_puppet None room1 (init_world mem0)) = Inr (Some (js ''Alice,Bob,Carol''))"
proof -
  let ?w = "init_world mem0 :: mem world"
  have r: "isReady mem_puppet room1 ?w" and p: "payload_topic mem_puppet room1 ?w = None"
    by (simp_all add: op_defs mem_defs run_defs)
  have m: "roomMemberList mem_puppet (rid room1) (pstate ?w)
             = (Inr [js ''bot'', js ''a'', js ''b'', js ''c'', js ''d''], mem0)"
    by (simp add: mem_defs run_defs)
  have f: "filter (\<lambda>i. i \<noteq> selfId mem_puppet mem0) [js ''bot'', js ''a'', js ''b'', js ''c'', js ''d'']
             = [js ''a'', js ''b'', js ''c'', js ''d'']"
    by (simp add: mem_defs run_defs)
  from topic_default_of_members [OF r p m] f show ?thesis
    by (simp add: mem_defs run_defs)
qed

text \<open>
  Claim C4 at a room with no member but the provider itself. \<open>room-2\<close> is ready, its
  payload has no topic and its member list is the provider's own id alone: the filtered
  list is empty, \<open>memberList[0]\<close> is \<open>undefined\<close>, and \<open>topic()\<close> throws a \<open>TypeError\<close>
  where the claim promises a string.
\<close>

theorem topic_default_without_members:
  "isReady mem_puppet room2 (init_world mem0)
   \<and> payload_topic mem_puppet room2 (init_world mem0) = None
   \<and> fst (roomMemberList mem_puppet (rid room2) mem0) = Inr [js ''bot'']
   \<and> selfId mem_puppet mem0 = js ''bot''
   \<and> fst (topic mem_puppet None room2 (init_world mem0))
       = Inl (TypeError ''Cannot read property name of undefined'')"
  by (simp add: topic_def op_defs mem_defs run_defs)

subsection \<open>say\<close>

text \<open>
  Claim C6. For every text \<open>t\<close> and every non-empty mention list (a single member or a
  list) whose first member has a non-empty id, \<open>say\<close> makes one provider call,
  send-text, to this room's id with the first member's id as contact id; the text sent is
  \<open>@name\<close> for each mentioned member, joined by U+2005, then a space, then \<open>t\<close>. With no
  mention the text is sent as it is and the contact id is absent.
\<close>

theorem say_text_with_mention:
  "(replyToList m = c # cs \<and> cid c \<noteq> [] \<longrightarrow>
      say pp (Text t) m r w =
        invoke (MessageSendText \<lparr>roomId = Some (rid r), contactId = Some (cid c)\<rparr>
                  (join [0x2005] (map (\<lambda>x. js ''@'' @ contactName pp (pstate w) (cid x)) (c # cs))
                   @ js '' '' @ t))
               (messageSendText pp \<lparr>roomId = Some (rid r), contactId = Some (cid c)\<rparr>
                  (join [0x2005] (map (\<lambda>x. js ''@'' @ contactName pp (pstate w) (cid x)) (c # cs))
                   @ js '' '' @ t))
               (log Verbose ''Room'' ''say(%s, %s)'' w)
      \<and> calls (snd (say pp (Text t) m r w)) =
          calls w @ [MessageSendText \<lparr>roomId = Some (rid r), contactId = Some (cid c)\<rparr>
                  (join [0x2005] (map (\<lambda>x. js ''@'' @ contactName pp (pstate w) (cid x)) (c # cs))
                   @ js '' '' @ t)])
   \<and> (replyToList m = [] \<longrightarrow>
      say pp (Text t) m r w =
        invoke (MessageSendText \<lparr>roomId = Some (rid r), contactId = None\<rparr> t)
               (messageSendText pp \<lparr>roomId = Some (rid r), contactId = None\<rparr> t)
               (log Verbose ''Room'' ''say(%s, %s)'' w)
      \<and> calls (snd (say pp (Text t) m r w)) =
          calls w @ [MessageSendText \<lparr>roomId = Some (rid r), contactId = None\<rparr> t])"
  by (simp add: say_def Let_def reply_contactId_def AT_SEPRATOR_def fromCharCode_def invoke_calls)

theorem say_text_with_mention_witness:
  "replyToList (Many [Contact (js ''a''), Contact (js ''b'')]) = [Contact (js ''a''), Contact (js ''b'')]
   \<and> cid (Contact (js ''a'')) \<noteq> []
   \<and> calls (snd (say mem_puppet (Text (js ''hi'')) (Many [Contact (js ''a''), Contact (js ''b'')]) room1 (init_world mem0)))
       = [MessageSendText \<lparr>roomId = Some (js ''room-1''), contactId = Some (js ''a'')\<rparr>
            (js ''@'' @ js ''Alice'' @ [0x2005] @ js ''@'' @ js ''Bob'' @ js '' '' @ js ''hi'')]
   \<and> replyToList NoMention = []
   \<and> calls (snd (say mem_puppet (Text (js ''hi'')) NoMention room1 (init_world mem0)))
       = [MessageSendText \<lparr>roomId = Some (js ''room-1''), contactId = None\<rparr> (js ''hi'')]"
proof -
  let ?w = "init_world mem0 :: mem world"
  let ?m = "Many [Contact (js ''a''), Contact (js ''b'')]"
  have h1: "replyToList ?m = [Contact (js ''a''), Contact (js ''b'')]"
    and h2: "cid (Contact (js ''a'')) \<noteq> []" and h3: "replyToList NoMention = []"
    by (simp_all add: replyToList_def js_def)
  have n: "contactName mem_puppet (pstate ?w) (js ''a'') = js ''Alice''"
    "contactName mem_puppet (pstate ?w) (js ''b'') = js ''Bob''"
    by (simp_all add: mem_defs run_defs)
  have c: "calls ?w = []" and i: "rid room1 = js ''room-1''"
    by (simp_all add: init_world_def room1_def)
  from say_text_with_mention [of ?m "Contact (js ''a'')" "[Contact (js ''b'')]" mem_puppet
          "js ''hi''" room1 ?w] h1 h2
  have a: "calls (snd (say mem_puppet (Text (js ''hi'')) ?m room1 ?w)) =
      [MessageSendText \<lparr>roomId = Some (js ''room-1''), contactId = Some (js ''a'')\<rparr>
         (js ''@'' @ js ''Alice'' @ [0x2005] @ js ''@'' @ js ''Bob'' @ js '' '' @ js ''hi'')]"
    by (simp add: n c i invoke_calls)
  from say_text_with_mention [of NoMention _ _ mem_puppet "js ''hi''" room1 ?w] h3
  have b: "calls (snd (say mem_puppet (Text (js ''hi'')) NoMention room1 ?w)) =
      [MessageSendText \<lparr>roomId = Some (js ''room-1''), contactId = None\<rparr> (js ''hi'')]"
    by (simp add: c i invoke_calls)
  from h1 h2 h3 a b show ?thesis by simp
qed

subsection \<open>create\<close>

lemma constructor_calls: "calls (snd (constructor cls i w)) = calls w \<and> pstate (snd (constructor cls i w)) = pstate w"
  by (simp add: constructor_def Let_def)

lemma load_calls: "calls (snd (load cls i w)) = calls w"
proof -
  have "calls (snd (constructor cls i (w\<lparr>pool := Some (entries w)\<rparr>))) = calls w"
    by (simp add: constructor_calls)
  then show ?thesis
    by (auto simp: load_def Let_def split: option.splits prod.splits sum.splits)
qed

lemma captureException_sel [simp]:
  "calls (captureException e w) = calls w" "pstate (captureException e w) = pstate w"
  "pool (captureException e w) = pool w" "next_ref (captureException e w) = next_ref w"
  "logs (captureException e w) = logs w" "raven (captureException e w) = raven w @ [e]"
  by (simp_all add: captureException_def)

lemma load_throws_error_object:
  "fst (load cls i w) = Inl e \<Longrightarrow> read_message e = None"
  by (auto simp: load_def constructor_def Let_def read_message_def
           split: option.splits if_splits)

lemma create_try_calls:
  "puppet cls = Some pp \<Longrightarrow>
     calls (snd (create_try cls cs tp w)) = calls w @ [RoomCreate (map cid cs) tp]"
  using load_calls [of cls _ "snd (invoke (RoomCreate (map cid cs) tp) (roomCreate pp (map cid cs) tp) w)"]
  by (auto simp: create_try_def Let_def invoke_def split: prod.splits sum.splits)

text \<open>
  Claim C2, as stated, fails: an empty array is truthy and is an array, so the guard of
  lines 84-86 lets it pass. With the empty member list and the topic \<open>ding\<close>, \<open>create\<close>
  calls the provider's create-room on the empty id list and returns the new room.
\<close>

theorem create_empty_list_counterexample:
  "fst (create bound_class (ArgArray []) (Some (js ''ding'')) (init_world mem0))
     = Inr \<lparr>ref = 0, rid = js ''room-new''\<rparr>
   \<and> calls (snd (create bound_class (ArgArray []) (Some (js ''ding'')) (init_world mem0)))
     = [RoomCreate [] (Some (js ''ding''))]"
  by (simp add: create_def create_try_def op_defs mem_defs run_defs)

text \<open>
  Claim C2, amended. For every topic, \<open>create\<close> with an empty member list is not refused
  by the guard: it makes exactly one provider call, create-room with the empty id list and
  the topic. When the provider answers an id, \<open>create\<close> returns what the registry's
  \<open>load\<close> returns for that id; when the provider rejects with an error value (neither
  \<open>undefined\<close> nor \<open>null\<close>), \<open>create\<close> rethrows that value. The guard throws
  \<open>contactList not found\<close>, before any provider call, for an argument that is not an
  array and has a callable \<open>join\<close>, so that the log line before the guard has run.
\<close>

theorem create_member_list_guard:
  "create cls (ArgNonArray True) tp w =
     (Inl (Error ''contactList not found''), w\<lparr>logs := logs w @ [(Verbose, ''Room'', ''create(%s, %s)'')]\<rparr>)
   \<and> (puppet cls = Some pp \<longrightarrow>
        calls (snd (create cls (ArgArray []) tp w)) = calls w @ [RoomCreate [] tp])
   \<and> (puppet cls = Some pp \<and> fst (roomCreate pp [] tp (pstate w)) = Inl e
        \<and> e \<noteq> ThrownUndefined \<and> e \<noteq> ThrownNull \<longrightarrow>
        fst (create cls (ArgArray []) tp w) = Inl e)
   \<and> (puppet cls = Some pp \<and> fst (roomCreate pp [] tp (pstate w)) = Inr i \<longrightarrow>
        fst (create cls (ArgArray []) tp w) =
          fst (load cls i (snd (invoke (RoomCreate [] tp) (roomCreate pp [] tp)
                                  (log Verbose ''Room'' ''create(%s, %s)'' w)))))"
proof -
  let ?wl = "log Verbose ''Room'' ''create(%s, %s)'' w"
  let ?wc = "snd (invoke (RoomCreate [] tp) (roomCreate pp [] tp) ?wl)"
  have g: "create cls (ArgNonArray True) tp w =
     (Inl (Error ''contactList not found''), w\<lparr>logs := logs w @ [(Verbose, ''Room'', ''create(%s, %s)'')]\<rparr>)"
    by (simp add: create_def log_def)
  have c: "puppet cls = Some pp \<longrightarrow>
        calls (snd (create cls (ArgArray []) tp w)) = calls w @ [RoomCreate [] tp]"
    using create_try_calls [of cls pp "[]" tp ?wl]
    by (auto simp: create_def split: prod.splits sum.splits option.splits)
  have e: "puppet cls = Some pp \<and> fst (roomCreate pp [] tp (pstate w)) = Inl e
        \<and> e \<noteq> ThrownUndefined \<and> e \<noteq> ThrownNull \<longrightarrow>
        fst (create cls (ArgArray []) tp w) = Inl e"
  proof
    assume a: "puppet cls = Some pp \<and> fst (roomCreate pp [] tp (pstate w)) = Inl e
        \<and> e \<noteq> ThrownUndefined \<and> e \<noteq> ThrownNull"
    then have "read_message e = None" by (cases e) (simp_all add: read_message_def)
    moreover from a have "fst (create_try cls [] tp ?wl) = Inl e"
      by (auto simp: create_try_def invoke_def split: prod.splits)
    ultimately show "fst (create cls (ArgArray []) tp w) = Inl e"
      by (auto simp: create_def split: prod.splits sum.splits)
  qed
  have l: "puppet cls = Some pp \<and> fst (roomCreate pp [] tp (pstate w)) = Inr i \<longrightarrow>
        fst (create cls (ArgArray []) tp w) = fst (load cls i ?wc)"
  proof
    assume a: "puppet cls = Some pp \<and> fst (roomCreate pp [] tp (pstate w)) = Inr i"
    then have t: "create_try cls [] tp ?wl = load cls i ?wc"
      by (auto simp: create_try_def invoke_def split: prod.splits sum.splits)
    show "fst (create cls (ArgArray []) tp w) = fst (load cls i ?wc)"
    proof (cases "fst (load cls i ?wc)")
      case (Inl x)
      from load_throws_error_object [OF Inl] have "read_message x = None" .
      with Inl t show ?thesis
        by (auto simp: create_def split: prod.splits sum.splits)
    next
      case (Inr r)
      with t show ?thesis
        by (auto simp: create_def split: prod.splits sum.splits)
    qed
  qed
  from g c e l show ?thesis by blast
qed

theorem create_member_list_guard_witness:
  "puppet bound_class = Some mem_puppet
   \<and> fst (create bound_class (ArgNonArray True) None (init_world mem0)) = Inl (Error ''contactList not found'')
   \<and> calls (snd (create bound_class (ArgNonArray True) None (init_world mem0))) = []
   \<and> calls (snd (create bound_class (ArgArray []) None (init_world mem0))) = [RoomCreate [] None]
   \<and> fst (roomCreate mem_puppet [] None mem0) = Inr (js ''room-new'')
   \<and> fst (roomCreate mem_puppet [] None (mem0\<lparr>m_offline := True\<rparr>)) = Inl offline
   \<and> offline \<noteq> ThrownUndefined \<and> offline \<noteq> ThrownNull
   \<and> fst (create bound_class (ArgArray []) None (init_world (mem0\<lparr>m_offline := True\<rparr>))) = Inl offline"
proof -
  have p: "puppet bound_class = Some mem_puppet" by (simp add: bound_class_def)
  have a: "fst (roomCreate mem_puppet [] None (pstate (init_world mem0))) = Inr (js ''room-new'')"
    and b: "fst (roomCreate mem_puppet [] None (pstate (init_world (mem0\<lparr>m_offline := True\<rparr>)))) = Inl offline"
    by (simp_all add: mem_defs run_defs)
  have n: "offline \<noteq> ThrownUndefined" "offline \<noteq> ThrownNull" by (simp_all add: offline_def)
  from create_member_list_guard [of bound_class None "init_world mem0" mem_puppet]
    create_member_list_guard [of bound_class None "init_world (mem0\<lparr>m_offline := True\<rparr>)" mem_puppet offline]
    p a b n
  show ?thesis by (simp add: init_world_def)
qed

text \<open>
  A create-room that rejects with \<open>undefined\<close>: the \<open>catch\<close> of \<open>create\<close> throws a
  \<open>TypeError\<close> at line 94 and nothing is reported to Raven.
\<close>

lemma create_on_undefined_rejection:
  "fst (create (rejecting_class ThrownUndefined) (ArgArray []) None (init_world mem0))
     = Inl (TypeError ''Cannot read property message of undefined'')
   \<and> raven (snd (create (rejecting_class ThrownUndefined) (ArgArray []) None (init_world mem0))) = []"
  by (simp add: create_def create_try_def read_message_def rejecting_class_def
        rejecting_puppet_def invoke_def init_world_def log_def)

subsection \<open>findAll\<close>

lemma pool_ok_rid: "pool_ok w \<Longrightarrow> pool_get w i = Some r \<Longrightarrow> rid r = i"
  by (auto simp: pool_ok_def pool_get_def list_all_iff dest!: map_of_SomeD)

lemma load_all_loaded:
  "pool_ok w \<Longrightarrow> load_all cls ids w = (Inr rs, w') \<Longrightarrow>
     pool_ok w' \<and> map rid rs = ids \<and> (\<forall>r \<in> set rs. pool_get w' (rid r) = Some r)
     \<and> (\<forall>j x. pool_get w j = Some x \<longrightarrow> pool_get w' j = Some x)"
proof (induction ids arbitrary: w rs)
  case Nil
  then show ?case by simp
next
  case (Cons i ids)
  from Cons.prems(2) obtain r w1 rs1 where
    l: "load cls i w = (Inr r, w1)" and la: "load_all cls ids w1 = (Inr rs1, w')"
    and rs: "rs = r # rs1"
    by (auto split: prod.splits sum.splits)
  from load_pool_ok [OF Cons.prems(1), of cls i] l have ok1: "pool_ok w1" by simp
  from Cons.IH [OF ok1 la]
  have ok': "pool_ok w'" and ids: "map rid rs1 = ids"
    and pooled: "\<forall>x \<in> set rs1. pool_get w' (rid x) = Some x"
    and keeps: "\<forall>j x. pool_get w1 j = Some x \<longrightarrow> pool_get w' j = Some x"
    by simp_all
  from load_returns_entry [OF l] have g1: "pool_get w1 i = Some r" .
  with keeps have g': "pool_get w' i = Some r" by simp
  from pool_ok_rid [OF ok' g'] have ri: "rid r = i" .
  have k: "\<forall>j x. pool_get w j = Some x \<longrightarrow> pool_get w' j = Some x"
    using load_keeps [of w _ _ cls i] l keeps by auto
  from ok' ids pooled g' ri rs k show ?case by simp
qed

lemma promise_all_contact_ready_pool:
  "pool (snd (promise_all (map (\<lambda>i. contact_ready pp (Contact i)) ids) w)) = pool w"
proof (induction ids arbitrary: w)
  case Nil
  show ?case by simp
next
  case (Cons i ids)
  have "pool (snd (contact_ready pp (Contact i) w)) = pool w"
    by (simp add: contact_ready_def invoke_world)
  with Cons.IH [of "snd (contact_ready pp (Contact i) w)"] show ?case
    by (simp add: promise_all_snd_Cons del: promise_all.simps)
qed

lemma ready_pool: "pool (snd (ready pp dirty r w)) = pool w"
proof -
  have p: "\<And>ids w1 res w2. promise_all (map (\<lambda>i. contact_ready pp (Contact i)) ids) w1 = (res, w2)
          \<Longrightarrow> pool w2 = pool w1"
  proof -
    fix ids w1 res w2
    assume "promise_all (map (\<lambda>i. contact_ready pp (Contact i)) ids) w1 = (res, w2)"
    with promise_all_contact_ready_pool [of pp ids w1] show "pool w2 = pool w1" by simp
  qed
  show ?thesis
    by (auto simp: ready_def Let_def invoke_def dest!: p split: prod.splits sum.splits)
qed

lemma promise_all_ready_pool:
  "pool (snd (promise_all (map (ready pp dirty) rs) w)) = pool w"
proof (induction rs arbitrary: w)
  case Nil
  show ?case by simp
next
  case (Cons r rs)
  from Cons.IH [of "snd (ready pp dirty r w)"] ready_pool [of pp dirty r w] show ?case
    by (simp add: promise_all_snd_Cons del: promise_all.simps)
qed

lemma pool_get_cong: "pool w' = pool w \<Longrightarrow> pool_get w' = pool_get w"
  by (simp add: pool_get_def entries_def fun_eq_iff)


lemma caching_fetch:
  "caching_provider pp \<Longrightarrow> roomPayload pp i s = (Inr p, s') \<Longrightarrow> roomPayloadCache pp s' i \<noteq> None"
  unfolding caching_provider_def by blast

lemma caching_keeps:
  assumes "caching_provider pp" and "roomPayloadCache pp s i \<noteq> None"
  shows "roomPayload pp j s = (res1, s1) \<Longrightarrow> roomPayloadCache pp s1 i \<noteq> None"
    and "roomMemberList pp j s = (res2, s2) \<Longrightarrow> roomPayloadCache pp s2 i \<noteq> None"
    and "contactReady pp j s = (res3, s3) \<Longrightarrow> roomPayloadCache pp s3 i \<noteq> None"
proof -
  from assms have k: "roomPayloadCache pp (snd (roomPayload pp j s)) i \<noteq> None"
    "roomPayloadCache pp (snd (roomMemberList pp j s)) i \<noteq> None"
    "roomPayloadCache pp (snd (contactReady pp j s)) i \<noteq> None"
    unfolding caching_provider_def by blast+
  show "roomPayload pp j s = (res1, s1) \<Longrightarrow> roomPayloadCache pp s1 i \<noteq> None"
    using k(1) by simp
  show "roomMemberList pp j s = (res2, s2) \<Longrightarrow> roomPayloadCache pp s2 i \<noteq> None"
    using k(2) by simp
  show "contactReady pp j s = (res3, s3) \<Longrightarrow> roomPayloadCache pp s3 i \<noteq> None"
    using k(3) by simp
qed

lemma contacts_ready_keep_cache:
  assumes "caching_provider pp"
  shows "roomPayloadCache pp (pstate w) i \<noteq> None \<Longrightarrow>
     roomPayloadCache pp (pstate (snd (promise_all (map (\<lambda>c. contact_ready pp (Contact c)) ids) w))) i \<noteq> None"
proof (induction ids arbitrary: w)
  case Nil
  then show ?case by simp
next
  case (Cons c ids)
  obtain res s where cr: "contactReady pp c (pstate w) = (res, s)"
    by (cases "contactReady pp c (pstate w)")
  from caching_keeps(3) [OF assms Cons.prems cr]
  have "roomPayloadCache pp (pstate (snd (contact_ready pp (Contact c) w))) i \<noteq> None"
    using cr by (simp add: contact_ready_def invoke_def)
  from Cons.IH [OF this] show ?case
    by (simp add: promise_all_snd_Cons del: promise_all.simps)
qed

lemma ready_keeps_cache:
  assumes c: "caching_provider pp" and i: "roomPayloadCache pp (pstate w) i \<noteq> None"
  shows "roomPayloadCache pp (pstate (snd (ready pp False r w))) i \<noteq> None"
proof -
  let ?w0 = "log Verbose ''Room'' ''ready()'' w"
  obtain r1 s1 where f1: "roomPayload pp (rid r) (pstate w) = (r1, s1)"
    by (cases "roomPayload pp (rid r) (pstate w)")
  obtain r2 s2 where f2: "roomMemberList pp (rid r) s1 = (r2, s2)"
    by (cases "roomMemberList pp (rid r) s1")
  from caching_keeps(1) [OF c i f1] have k1: "roomPayloadCache pp s1 i \<noteq> None" .
  from caching_keeps(2) [OF c k1 f2] have k2: "roomPayloadCache pp s2 i \<noteq> None" .
  have k3: "\<And>ids w2. pstate w2 = s2 \<Longrightarrow>
     roomPayloadCache pp (pstate (snd (promise_all (map (\<lambda>c. contact_ready pp (Contact c)) ids) w2))) i \<noteq> None"
    using contacts_ready_keep_cache [OF c] k2 by simp
  show ?thesis
  proof (cases "isReady pp r w")
    case True
    with i show ?thesis by (simp add: ready_def Let_def)
  next
    case False
    show ?thesis
    proof (cases r1)
      case (Inl e)
      with False f1 k1 show ?thesis by (simp add: ready_def Let_def invoke_def)
    next
      case (Inr p)
      note r1 = this
      show ?thesis
      proof (cases r2)
        case (Inl e)
        with False f1 f2 r1 k2 show ?thesis by (simp add: ready_def Let_def invoke_def)
      next
        case (Inr ids)
        let ?w3 = "?w0\<lparr>pstate := s1, calls := calls ?w0 @ [RoomPayload (rid r)]\<rparr>
                     \<lparr>pstate := s2, calls := calls ?w0 @ [RoomPayload (rid r)] @ [RoomMemberList (rid r)]\<rparr>"
        from k3 [of ?w3 ids] have
          "roomPayloadCache pp (pstate (snd (promise_all (map (\<lambda>c. contact_ready pp (Contact c)) ids) ?w3))) i \<noteq> None"
          by simp
        with False f1 f2 r1 Inr show ?thesis
          by (auto simp add: ready_def Let_def invoke_def split: prod.splits sum.splits)
      qed
    qed
  qed
qed


lemma ready_makes_ready:
  assumes c: "caching_provider pp" and ok: "ready pp False r w = (Inr (), w')" and ne: "rid r \<noteq> []"
  shows "isReady pp r w'"
proof (cases "isReady pp r w")
  case True
  with ok have "w' = log Verbose ''Room'' ''ready()'' w" by (simp add: ready_def Let_def)
  with True show ?thesis by simp
next
  case False
  obtain r1 s1 where f1: "roomPayload pp (rid r) (pstate w) = (r1, s1)"
    by (cases "roomPayload pp (rid r) (pstate w)")
  obtain r2 s2 where f2: "roomMemberList pp (rid r) s1 = (r2, s2)"
    by (cases "roomMemberList pp (rid r) s1")
  from ok False f1 obtain p where r1: "r1 = Inr p"
    by (cases r1) (auto simp: ready_def Let_def invoke_def)
  from ok False f1 f2 r1 obtain ids where r2: "r2 = Inr ids"
    by (cases r2) (auto simp: ready_def Let_def invoke_def)
  let ?w3 = "(log Verbose ''Room'' ''ready()'' w)
               \<lparr>pstate := s2, calls := calls w @ [RoomPayload (rid r), RoomMemberList (rid r)]\<rparr>"
  from ok False f1 f2 r1 r2
  have w': "w' = snd (promise_all (map (\<lambda>c. contact_ready pp (Contact c)) ids) ?w3)"
    by (auto simp: ready_def Let_def invoke_def split: prod.splits sum.splits)
  from caching_fetch [OF c] f1 r1 have k1: "roomPayloadCache pp s1 (rid r) \<noteq> None" by simp
  from caching_keeps(2) [OF c k1 f2] have "roomPayloadCache pp (pstate ?w3) (rid r) \<noteq> None" by simp
  from contacts_ready_keep_cache [OF c this, of ids] w' ne show ?thesis
    by (simp add: isReady_def payload_def)
qed

lemma all_ready_keep_cache:
  assumes "caching_provider pp"
  shows "roomPayloadCache pp (pstate w) i \<noteq> None \<Longrightarrow>
     roomPayloadCache pp (pstate (snd (promise_all (map (ready pp False) rs) w))) i \<noteq> None"
proof (induction rs arbitrary: w)
  case Nil
  then show ?case by simp
next
  case (Cons r rs)
  from Cons.IH [OF ready_keeps_cache [OF assms Cons.prems, of r]] show ?case
    by (simp add: promise_all_snd_Cons del: promise_all.simps)
qed

lemma promise_all_Inr_Cons:
  "promise_all (a # as) w = (Inr xs, w') \<Longrightarrow>
     \<exists>x ys. a w = (Inr x, snd (a w)) \<and> promise_all as (snd (a w)) = (Inr ys, w')"
  by (auto split: prod.splits sum.splits)

lemma all_ready_makes_ready:
  assumes c: "caching_provider pp"
  shows "promise_all (map (ready pp False) rs) w = (Inr us, w') \<Longrightarrow>
     \<forall>r \<in> set rs. rid r \<noteq> [] \<longrightarrow> isReady pp r w'"
proof (induction rs arbitrary: w us)
  case Nil
  then show ?case by simp
next
  case (Cons r rs)
  let ?w1 = "snd (ready pp False r w)"
  from promise_all_Inr_Cons [of "ready pp False r" "map (ready pp False) rs" w us w'] Cons.prems
  obtain ys where h: "ready pp False r w = (Inr (), ?w1)"
    and t: "promise_all (map (ready pp False) rs) ?w1 = (Inr ys, w')"
    by auto
  from Cons.IH [OF t] have tail: "\<forall>x \<in> set rs. rid x \<noteq> [] \<longrightarrow> isReady pp x w'" .
  have head: "rid r \<noteq> [] \<longrightarrow> isReady pp r w'"
  proof
    assume ne: "rid r \<noteq> []"
    from ready_makes_ready [OF c h ne] have "roomPayloadCache pp (pstate ?w1) (rid r) \<noteq> None"
      using ne by (simp add: isReady_def payload_def)
    from all_ready_keep_cache [OF c this, of rs] t ne show "isReady pp r w'"
      by (simp add: isReady_def payload_def)
  qed
  from head tail show ?case by simp
qed


text \<open>
  The fail-safe for a rejection with an error value. For a query with a topic matcher,
  an error value (neither \<open>undefined\<close> nor \<open>null\<close>) thrown inside the \<open>try\<close> block makes
  \<open>findAll\<close> return the empty list: so when the provider's search rejects, and so when
  the readiness resolution of the loaded rooms rejects. When nothing is thrown it returns
  the list of the \<open>try\<close> block: one room per id the search returned, in that order, each
  the registry's instance for its id; and with a provider that caches what it fetches,
  each room with a non-empty id is ready.
\<close>

lemma findAll_fail_safe_for_error_values:
  assumes "has_topic q"
  shows "((\<exists>e. fst (findAll_try cls q (log Verbose ''Room'' ''findAll()'' w)) = Inl e
              \<and> e \<noteq> ThrownUndefined \<and> e \<noteq> ThrownNull) \<longrightarrow>
          fst (findAll cls (Some q) w) = Inr [])
    \<and> (puppet cls = Some pp \<and> fst (roomSearch pp q (pstate w)) = Inl e \<longrightarrow>
          fst (findAll_try cls q (log Verbose ''Room'' ''findAll()'' w)) = Inl e)
    \<and> (puppet cls = Some pp \<and> roomSearch pp q (pstate w) = (Inr ids, s)
        \<and> load_all cls ids ((log Verbose ''Room'' ''findAll()'' w)\<lparr>pstate := s, calls := calls w @ [RoomSearch q]\<rparr>)
            = (Inr rs, w2)
        \<and> fst (promise_all (map (ready pp False) rs) w2) = Inl e \<longrightarrow>
          fst (findAll_try cls q (log Verbose ''Room'' ''findAll()'' w)) = Inl e)
    \<and> (pool_ok w \<and> puppet cls = Some pp \<and> roomSearch pp q (pstate w) = (Inr ids, s)
        \<and> findAll_try cls q (log Verbose ''Room'' ''findAll()'' w) = (Inr rs, w') \<longrightarrow>
          findAll cls (Some q) w = (Inr rs, w') \<and> map rid rs = ids
          \<and> (\<forall>r \<in> set rs. pool_get w' (rid r) = Some r)
          \<and> (caching_provider pp \<and> [] \<notin> set ids \<longrightarrow> (\<forall>r \<in> set rs. isReady pp r w')))"
proof -
  let ?w0 = "log Verbose ''Room'' ''findAll()'' w"
  let ?w1 = "?w0\<lparr>pstate := s, calls := calls w @ [RoomSearch q]\<rparr>"
  have caught: "(\<exists>e. fst (findAll_try cls q ?w0) = Inl e \<and> e \<noteq> ThrownUndefined \<and> e \<noteq> ThrownNull)
                  \<longrightarrow> fst (findAll cls (Some q) w) = Inr []"
  proof
    assume "\<exists>e. fst (findAll_try cls q ?w0) = Inl e \<and> e \<noteq> ThrownUndefined \<and> e \<noteq> ThrownNull"
    then obtain e where t: "fst (findAll_try cls q ?w0) = Inl e"
      and n: "e \<noteq> ThrownUndefined" "e \<noteq> ThrownNull" by blast
    from n have "read_message e = None" by (cases e) (simp_all add: read_message_def)
    with t assms show "fst (findAll cls (Some q) w) = Inr []"
      by (auto simp: findAll_def Let_def split: prod.splits sum.splits)
  qed
  have search: "puppet cls = Some pp \<and> fst (roomSearch pp q (pstate w)) = Inl e \<longrightarrow>
          fst (findAll_try cls q ?w0) = Inl e"
    by (auto simp: findAll_try_def invoke_def split: prod.splits sum.splits)
  have rdy: "puppet cls = Some pp \<and> roomSearch pp q (pstate w) = (Inr ids, s)
        \<and> load_all cls ids ?w1 = (Inr rs, w2)
        \<and> fst (promise_all (map (ready pp False) rs) w2) = Inl e \<longrightarrow>
          fst (findAll_try cls q ?w0) = Inl e"
    by (auto simp: findAll_try_def invoke_def split: prod.splits sum.splits)
  have success: "pool_ok w \<and> puppet cls = Some pp \<and> roomSearch pp q (pstate w) = (Inr ids, s)
        \<and> findAll_try cls q ?w0 = (Inr rs, w') \<longrightarrow>
          findAll cls (Some q) w = (Inr rs, w') \<and> map rid rs = ids
          \<and> (\<forall>r \<in> set rs. pool_get w' (rid r) = Some r)
          \<and> (caching_provider pp \<and> [] \<notin> set ids \<longrightarrow> (\<forall>r \<in> set rs. isReady pp r w'))"
  proof
    assume a: "pool_ok w \<and> puppet cls = Some pp \<and> roomSearch pp q (pstate w) = (Inr ids, s)
        \<and> findAll_try cls q ?w0 = (Inr rs, w')"
    then have ok: "pool_ok w" and pp: "puppet cls = Some pp"
      and sr: "roomSearch pp q (pstate w) = (Inr ids, s)"
      and tr: "findAll_try cls q ?w0 = (Inr rs, w')" by simp_all
    from tr pp sr obtain w2 us where la: "load_all cls ids ?w1 = (Inr rs, w2)"
      and pa: "promise_all (map (ready pp False) rs) w2 = (Inr us, w')"
      by (auto simp: findAll_try_def invoke_def split: prod.splits sum.splits)
    from ok have ok1: "pool_ok ?w1" by (simp add: pool_ok_def entries_def log_def)
    from load_all_loaded [OF ok1 la] have ids: "map rid rs = ids"
      and pooled2: "\<forall>r \<in> set rs. pool_get w2 (rid r) = Some r" by simp_all
    from promise_all_ready_pool [of pp False rs w2] pa have "pool w' = pool w2" by simp
    from pool_get_cong [OF this] pooled2 have pooled: "\<forall>r \<in> set rs. pool_get w' (rid r) = Some r"
      by simp
    have res: "findAll cls (Some q) w = (Inr rs, w')"
      using assms tr by (simp add: findAll_def Let_def)
    have rd: "caching_provider pp \<and> [] \<notin> set ids \<longrightarrow> (\<forall>r \<in> set rs. isReady pp r w')"
    proof
      assume b: "caching_provider pp \<and> [] \<notin> set ids"
      have "\<forall>r \<in> set rs. rid r \<in> set ids" using ids by force
      with b have "\<forall>r \<in> set rs. rid r \<noteq> []" by metis
      with all_ready_makes_ready [OF _ pa] b show "\<forall>r \<in> set rs. isReady pp r w'" by blast
    qed
    from res ids pooled rd
    show "findAll cls (Some q) w = (Inr rs, w') \<and> map rid rs = ids
          \<and> (\<forall>r \<in> set rs. pool_get w' (rid r) = Some r)
          \<and> (caching_provider pp \<and> [] \<notin> set ids \<longrightarrow> (\<forall>r \<in> set rs. isReady pp r w'))"
      by blast
  qed
  from caught search rdy success show ?thesis by blast
qed

lemma mem_puppet_caching: "caching_provider mem_puppet"
  by (auto simp: caching_provider_def mem_puppet_def guarded_def mem_fetch_def
           split: if_splits option.splits)

text \<open>On the in-memory provider: offline, and online with its three rooms.\<close>

lemma findAll_fail_safe_example:
  "has_topic q_ding
   \<and> puppet bound_class = Some mem_puppet
   \<and> fst (roomSearch mem_puppet q_ding (mem0\<lparr>m_offline := True\<rparr>)) = Inl offline
   \<and> fst (findAll bound_class (Some q_ding) (init_world (mem0\<lparr>m_offline := True\<rparr>))) = Inr []
   \<and> pool_ok (init_world mem0)
   \<and> roomSearch mem_puppet q_ding mem0 = (Inr [js ''room-1'', js ''room-2'', js ''room-3''], mem0)
   \<and> fst (findAll bound_class (Some q_ding) (init_world mem0)) = Inr [room1, room2, room3]
   \<and> isReady mem_puppet room1 (snd (findAll bound_class (Some q_ding) (init_world mem0)))
   \<and> isReady mem_puppet room2 (snd (findAll bound_class (Some q_ding) (init_world mem0)))
   \<and> isReady mem_puppet room3 (snd (findAll bound_class (Some q_ding) (init_world mem0)))"
proof -
  let ?w = "init_world mem0 :: mem world"
  let ?v = "init_world (mem0\<lparr>m_offline := True\<rparr>) :: mem world"
  let ?wl = "log Verbose ''Room'' ''findAll()'' ?w"
  let ?w' = "snd (findAll_try bound_class q_ding ?wl)"
  have q: "has_topic q_ding" by (simp add: has_topic_def q_ding_def js_def)
  have p: "puppet bound_class = Some mem_puppet" by (simp add: bound_class_def)
  have off: "fst (roomSearch mem_puppet q_ding (pstate ?v)) = Inl offline"
    by (simp add: mem_defs run_defs)
  have no: "offline \<noteq> ThrownUndefined" "offline \<noteq> ThrownNull" by (simp_all add: offline_def)
  have ok: "pool_ok ?w" by (simp add: pool_ok_def entries_def init_world_def)
  have sr: "roomSearch mem_puppet q_ding (pstate ?w) = (Inr [js ''room-1'', js ''room-2'', js ''room-3''], mem0)"
    by (simp add: mem_defs run_defs)
  have "fst (findAll_try bound_class q_ding ?wl) = Inr [room1, room2, room3]"
    by (simp add: findAll_try_def ready_def op_defs mem_defs run_defs)
  then have tr: "findAll_try bound_class q_ding ?wl = (Inr [room1, room2, room3], ?w')"
    by (simp add: prod_eq_iff)
  have ne: "[] \<notin> set [js ''room-1'', js ''room-2'', js ''room-3'']" by (simp add: js_def)
  from findAll_fail_safe_for_error_values [OF q, where cls = bound_class and w = ?v and pp = mem_puppet and e = offline]
    p off no
  have a: "fst (findAll bound_class (Some q_ding) ?v) = Inr []" by blast
  from findAll_fail_safe_for_error_values [OF q, where cls = bound_class and w = ?w and pp = mem_puppet and s = mem0
      and ids = "[js ''room-1'', js ''room-2'', js ''room-3'']" and rs = "[room1, room2, room3]" and w' = ?w']
    ok p sr tr mem_puppet_caching ne
  have b: "findAll bound_class (Some q_ding) ?w = (Inr [room1, room2, room3], ?w')
           \<and> (\<forall>r \<in> set [room1, room2, room3]. isReady mem_puppet r ?w')"
    by blast
  from q p off a ok sr b show ?thesis
    by (simp add: init_world_def)
qed

text \<open>
  Claim C5 at a provider whose search rejects with \<open>undefined\<close>. The query has a topic
  matcher and the rejection is caught, but the \<open>catch\<close> reads \<open>e.message\<close> of \<open>undefined\<close>
  at line 128: \<open>findAll\<close> rejects with a \<open>TypeError\<close> where the claim promises the empty
  list. The handler of the topic setter, line 568, guards the same read with \<open>e &&\<close>.
\<close>

theorem findAll_rejects_on_undefined_rejection:
  "has_topic q_ding
   \<and> puppet (rejecting_class ThrownUndefined) = Some (rejecting_puppet ThrownUndefined)
   \<and> fst (roomSearch (rejecting_puppet ThrownUndefined) q_ding mem0) = Inl ThrownUndefined
   \<and> fst (findAll (rejecting_class ThrownUndefined) (Some q_ding) (init_world mem0))
       = Inl (TypeError ''Cannot read property message of undefined'')"
  by (simp add: findAll_def findAll_try_def has_topic_def q_ding_def read_message_def
        rejecting_class_def rejecting_puppet_def invoke_def init_world_def log_def js_def)

end
